theory Spec2Isabelle
  imports Complex_Main "HOL-Library.Multiset"
begin

section \<open>Data model\<close>

text \<open>
  The recommendation scorer of \<^verbatim>\<open>improved_ev_advisor.py\<close> works on a pandas
  data frame. A frame is modelled as the list of its column names together with the
  list of its rows. A cell of a numeric column is a \<open>rat option\<close>: \<open>None\<close> is
  pandas' NaN (a missing value), \<open>Some x\<close> a known number. Floating-point numbers are
  idealised as exact rationals: rounding, overflow and the infinities are not
  modelled. A cell of a text column is a \<open>string option\<close>.

  One row type serves every frame: it has a field for each column the scorer reads
  or writes. Whether a column exists is decided by \<open>columns\<close> alone, as
  \<^verbatim>\<open>col in df.columns\<close> does in the source; the field of a column that does
  not exist is never read.
\<close>

datatype py_error = KeyError string | IndexError | ValueError

record vehicle =
  Make :: "string option"
  Model :: "string option"
  Model_Year :: "rat option"
  Electric_Range :: "rat option"
  Base_MSRP :: "rat option"
  Electric_Vehicle_Type :: "string option"
  CAFV_Eligibility :: "string option"
  Electric_Range_norm :: "rat option"
  Base_MSRP_norm :: "rat option"
  Model_Year_norm :: "rat option"
  range_score :: "rat option"
  price_score :: "rat option"
  newness_score :: "rat option"
  value_raw :: "rat option"
  value_score :: "rat option"
  cafv_bonus :: "rat option"
  composite_score :: "rat option"

record frame =
  columns :: "string list"
  rows :: "vehicle list"

text \<open>A freshly loaded row: the seven data columns, no score column yet.\<close>

definition car ::
  "string option \<Rightarrow> string option \<Rightarrow> rat option \<Rightarrow> rat option \<Rightarrow> rat option \<Rightarrow>
   string option \<Rightarrow> string option \<Rightarrow> vehicle" where
  "car mk md yr rg pr ty cf =
     \<lparr>Make = mk, Model = md, Model_Year = yr, Electric_Range = rg, Base_MSRP = pr,
      Electric_Vehicle_Type = ty, CAFV_Eligibility = cf,
      Electric_Range_norm = None, Base_MSRP_norm = None, Model_Year_norm = None,
      range_score = None, price_score = None, newness_score = None,
      value_raw = None, value_score = None, cafv_bonus = None, composite_score = None\<rparr>"

subsection \<open>Arithmetic on cells\<close>

text \<open>Every arithmetic operation of pandas yields NaN as soon as one operand is NaN.\<close>

definition nan_lift2 :: "(rat \<Rightarrow> rat \<Rightarrow> rat) \<Rightarrow> rat option \<Rightarrow> rat option \<Rightarrow> rat option" where
  "nan_lift2 f a b = (case a of None \<Rightarrow> None | Some x \<Rightarrow> (case b of None \<Rightarrow> None | Some y \<Rightarrow> Some (f x y)))"

definition nan_add :: "rat option \<Rightarrow> rat option \<Rightarrow> rat option" where
  "nan_add = nan_lift2 (\<lambda>x y. x + y)"

definition nan_sub :: "rat option \<Rightarrow> rat option \<Rightarrow> rat option" where
  "nan_sub = nan_lift2 (\<lambda>x y. x - y)"

definition nan_mul :: "rat option \<Rightarrow> rat option \<Rightarrow> rat option" where
  "nan_mul = nan_lift2 (\<lambda>x y. x * y)"

text \<open>
  Division is only used with a divisor that is known to be non-zero, except in
  \<open>value_raw\<close> (see there).
\<close>

definition nan_div :: "rat option \<Rightarrow> rat option \<Rightarrow> rat option" where
  "nan_div = nan_lift2 (\<lambda>x y. x / y)"

text \<open>\<^verbatim>\<open>Series.fillna(v)\<close> on one cell.\<close>

definition fillna :: "rat \<Rightarrow> rat option \<Rightarrow> rat" where
  "fillna v c = (case c of None \<Rightarrow> v | Some x \<Rightarrow> x)"

text \<open>\<^verbatim>\<open>Series.dropna()\<close>, \<^verbatim>\<open>Series.min()\<close> and \<^verbatim>\<open>Series.max()\<close>: the
  extrema skip NaN and are NaN for a series without a known value.\<close>

fun dropna :: "'a option list \<Rightarrow> 'a list" where
  "dropna [] = []"
| "dropna (None # cs) = dropna cs"
| "dropna (Some x # cs) = x # dropna cs"

definition series_min :: "rat option list \<Rightarrow> rat option" where
  "series_min cs = (case dropna cs of [] \<Rightarrow> None | x # xs \<Rightarrow> Some (fold min xs x))"

definition series_max :: "rat option list \<Rightarrow> rat option" where
  "series_max cs = (case dropna cs of [] \<Rightarrow> None | x # xs \<Rightarrow> Some (fold max xs x))"

text \<open>\<^verbatim>\<open>int(x)\<close> on a float truncates towards zero.\<close>

definition py_int :: "rat \<Rightarrow> int" where
  "py_int x = (if 0 \<le> x then \<lfloor>x\<rfloor> else \<lceil>x\<rceil>)"

subsection \<open>Text cells\<close>

text \<open>
  \<^verbatim>\<open>.astype(str).str.contains("eligible", case=False, na=False)\<close>: a
  case-insensitive substring test (on ASCII letters); a missing cell becomes the
  text \<^verbatim>\<open>nan\<close>, which does not contain the pattern.
\<close>

definition lower_char :: "char \<Rightarrow> char" where
  "lower_char c =
     (let n = (of_char c :: nat) in if 65 \<le> n \<and> n \<le> 90 then char_of (n + 32) else c)"

fun starts_with :: "string \<Rightarrow> string \<Rightarrow> bool" where
  "starts_with [] s = True"
| "starts_with (p # ps) [] = False"
| "starts_with (p # ps) (c # cs) = (p = c \<and> starts_with ps cs)"

fun str_contains :: "string \<Rightarrow> string \<Rightarrow> bool" where
  "str_contains p [] = (p = [])"
| "str_contains p (c # cs) = (starts_with p (c # cs) \<or> str_contains p cs)"

definition contains_eligible :: "string option \<Rightarrow> bool" where
  "contains_eligible c =
     (case c of None \<Rightarrow> False | Some s \<Rightarrow> str_contains ''eligible'' (map lower_char s))"

section \<open>Candidate filter: the budget constraint\<close>

text \<open>
  The dictionary \<^verbatim>\<open>budget_ranges\<close> of \<^verbatim>\<open>create_improved_ev_advisor\<close> and
  the budget filter applied on submit:
  \<^verbatim>\<open>
  min_price, max_price = budget_ranges[budget_choice]
  if 'Base MSRP' in candidates.columns:
      candidates = candidates[
          (candidates['Base MSRP'].fillna(999999) >= min_price) &
          (candidates['Base MSRP'].fillna(999999) <= max_price)]
  \<close>
\<close>

definition budget_ranges :: "(string \<times> rat \<times> rat) list" where
  "budget_ranges =
    [(''Budget-conscious (< $40k)'', (0, 40000)),
     (''Mid-range ($40k - $60k)'', (40000, 60000)),
     (''Premium ($60k - $80k)'', (60000, 80000)),
     (''Luxury (> $80k)'', (80000, 999999)),
     (''No preference'', (0, 999999))]"

definition budget_mask :: "rat \<Rightarrow> rat \<Rightarrow> vehicle \<Rightarrow> bool" where
  "budget_mask min_price max_price r =
     (fillna 999999 (Base_MSRP r) \<ge> min_price \<and> fillna 999999 (Base_MSRP r) \<le> max_price)"

definition budget_filter :: "string \<Rightarrow> frame \<Rightarrow> py_error + frame" where
  "budget_filter budget_choice candidates =
     (case map_of budget_ranges budget_choice of
        None \<Rightarrow> Inl (KeyError budget_choice)
      | Some (min_price, max_price) \<Rightarrow>
          if ''Base MSRP'' \<in> set (columns candidates)
          then Inr (candidates\<lparr>rows := filter (budget_mask min_price max_price) (rows candidates)\<rparr>)
          else Inr candidates)"

text \<open>The claim's reading of the filter: the price is known and inside the interval.\<close>

definition known_within :: "rat \<Rightarrow> rat \<Rightarrow> vehicle \<Rightarrow> bool" where
  "known_within min_price max_price r =
     (case Base_MSRP r of None \<Rightarrow> False | Some p \<Rightarrow> min_price \<le> p \<and> p \<le> max_price)"

text \<open>
  The range requirement and the range filter:
  \<^verbatim>\<open>
  min_range = range_requirements[use_case][range_need]
  if 'Electric Range' in candidates.columns:
      candidates = candidates[candidates['Electric Range'].fillna(0) >= min_range]
  \<close>
\<close>

definition range_requirements :: "(string \<times> (string \<times> rat) list) list" where
  "range_requirements =
    [(''Daily commuting (< 50 mi/day)'',
        [(''Not critical (city driving)'', 100), (''Moderate (occasional trips)'', 150),
         (''Important (regular highway)'', 200), (''Essential (frequent road trips)'', 250)]),
     (''Regular road trips (> 200 mi)'',
        [(''Not critical (city driving)'', 200), (''Moderate (occasional trips)'', 250),
         (''Important (regular highway)'', 300), (''Essential (frequent road trips)'', 350)]),
     (''Family hauling & errands'',
        [(''Not critical (city driving)'', 120), (''Moderate (occasional trips)'', 180),
         (''Important (regular highway)'', 240), (''Essential (frequent road trips)'', 280)]),
     (''Weekend fun & performance'',
        [(''Not critical (city driving)'', 150), (''Moderate (occasional trips)'', 200),
         (''Important (regular highway)'', 250), (''Essential (frequent road trips)'', 300)]),
     (''General purpose / Not sure'',
        [(''Not critical (city driving)'', 120), (''Moderate (occasional trips)'', 180),
         (''Important (regular highway)'', 220), (''Essential (frequent road trips)'', 260)])]"

definition range_filter :: "string \<Rightarrow> string \<Rightarrow> frame \<Rightarrow> py_error + frame" where
  "range_filter use_case range_need candidates =
     (case map_of range_requirements use_case of
        None \<Rightarrow> Inl (KeyError use_case)
      | Some by_need \<Rightarrow>
         (case map_of by_need range_need of
            None \<Rightarrow> Inl (KeyError range_need)
          | Some min_range \<Rightarrow>
              if ''Electric Range'' \<in> set (columns candidates)
              then Inr (candidates\<lparr>rows := filter (\<lambda>r. fillna 0 (Electric_Range r) \<ge> min_range)
                                                  (rows candidates)\<rparr>)
              else Inr candidates))"

section \<open>Score normalizer\<close>

text \<open>
  The loop of \<^verbatim>\<open>display_recommendations\<close> over the three normalized columns:
  \<^verbatim>\<open>
  for col in ['Electric Range', 'Base MSRP', 'Model Year']:
      if col in score_df.columns:
          col_series = score_df[col].dropna()
          if not col_series.empty and col_series.min() != col_series.max():
              score_df[f'{col}_norm'] = (score_df[col] - col_series.min())
                                        / (col_series.max() - col_series.min())
          else:
              score_df[f'{col}_norm'] = 0.5
      else:
          score_df[f'{col}_norm'] = 0.5
  \<close>
  \<open>col_norm score_df col field r\<close> is the cell of row \<open>r\<close> in the new column;
  \<open>field\<close> reads the column \<open>col\<close>.
\<close>

definition col_norm :: "frame \<Rightarrow> string \<Rightarrow> (vehicle \<Rightarrow> rat option) \<Rightarrow> vehicle \<Rightarrow> rat option" where
  "col_norm score_df col field r =
     (if col \<in> set (columns score_df) then
        (case series_min (map field (rows score_df)) of
           None \<Rightarrow> Some (1/2)
         | Some mn \<Rightarrow>
            (case series_max (map field (rows score_df)) of
               None \<Rightarrow> Some (1/2)
             | Some mx \<Rightarrow>
                 if mn \<noteq> mx then nan_div (nan_sub (field r) (Some mn)) (Some (mx - mn))
                 else Some (1/2)))
      else Some (1/2))"

text \<open>
  The value score.
  \<^verbatim>\<open>
  if 'Electric Range' in score_df.columns and 'Base MSRP' in score_df.columns:
      score_df['value_raw'] = score_df['Electric Range'] / (score_df['Base MSRP'] + 1)
      if score_df['value_raw'].max() > score_df['value_raw'].min():
          score_df['value_score'] = (score_df['value_raw'] - score_df['value_raw'].min())
                                    / (score_df['value_raw'].max() - score_df['value_raw'].min())
      else:
          score_df['value_score'] = 0.5
  else:
      score_df['value_score'] = 0.5
  \<close>
  A price of \<open>-1\<close> makes the divisor zero: pandas then yields an infinity (or NaN for
  a zero range), which a rational cannot hold. The data model has non-negative
  prices; \<open>prices_ok\<close> states what the model needs, and the theorems that
  depend on the values of the value score assume it.
\<close>

definition value_raw_of :: "vehicle \<Rightarrow> rat option" where
  "value_raw_of r = nan_div (Electric_Range r) (nan_add (Base_MSRP r) (Some 1))"

definition prices_ok :: "frame \<Rightarrow> bool" where
  "prices_ok df = list_all (\<lambda>r. Base_MSRP r \<noteq> Some (- 1)) (rows df)"

definition value_score_cell :: "rat option list \<Rightarrow> rat option \<Rightarrow> rat option" where
  "value_score_cell raws v =
     (case series_max raws of
        None \<Rightarrow> Some (1/2)
      | Some mx \<Rightarrow>
         (case series_min raws of
            None \<Rightarrow> Some (1/2)
          | Some mn \<Rightarrow>
              if mx > mn then nan_div (nan_sub v (Some mn)) (Some (mx - mn))
              else Some (1/2)))"

definition value_score_of :: "frame \<Rightarrow> vehicle \<Rightarrow> rat option" where
  "value_score_of score_df r =
     (if ''Electric Range'' \<in> set (columns score_df) \<and> ''Base MSRP'' \<in> set (columns score_df)
      then value_score_cell (map value_raw_of (rows score_df)) (value_raw_of r)
      else Some (1/2))"

text \<open>
  The CAFV bonus.
  \<^verbatim>\<open>
  if cafv_pref == "Prefer CAFV eligible" and
     'Clean Alternative Fuel Vehicle (CAFV) Eligibility' in score_df.columns:
      score_df['cafv_bonus'] = score_df[...].astype(str).str.contains(
          "eligible", case=False, na=False).astype(float) * 0.1
  else:
      score_df['cafv_bonus'] = 0
  \<close>
\<close>

definition cafv_column :: string where
  "cafv_column = ''Clean Alternative Fuel Vehicle (CAFV) Eligibility''"

definition cafv_bonus_of :: "frame \<Rightarrow> string option \<Rightarrow> vehicle \<Rightarrow> rat option" where
  "cafv_bonus_of score_df cafv_pref r =
     (if cafv_pref = Some ''Prefer CAFV eligible'' \<and> cafv_column \<in> set (columns score_df)
      then Some ((if contains_eligible (CAFV_Eligibility r) then 1 else 0) * (1/10))
      else Some 0)"

section \<open>Weight selector\<close>

datatype dim = Price | Range | Value | Newness

type_synonym weights = "dim \<Rightarrow> rat"

definition use_case_weights :: "(string \<times> weights) list" where
  "use_case_weights =
    [(''Daily commuting (< 50 mi/day)'',
        (\<lambda>d. case d of Price \<Rightarrow> 45/100 | Range \<Rightarrow> 20/100 | Value \<Rightarrow> 25/100 | Newness \<Rightarrow> 10/100)),
     (''Regular road trips (> 200 mi)'',
        (\<lambda>d. case d of Price \<Rightarrow> 25/100 | Range \<Rightarrow> 50/100 | Value \<Rightarrow> 15/100 | Newness \<Rightarrow> 10/100)),
     (''Family hauling & errands'',
        (\<lambda>d. case d of Price \<Rightarrow> 35/100 | Range \<Rightarrow> 30/100 | Value \<Rightarrow> 25/100 | Newness \<Rightarrow> 10/100)),
     (''Weekend fun & performance'',
        (\<lambda>d. case d of Price \<Rightarrow> 30/100 | Range \<Rightarrow> 30/100 | Value \<Rightarrow> 15/100 | Newness \<Rightarrow> 25/100)),
     (''General purpose / Not sure'',
        (\<lambda>d. case d of Price \<Rightarrow> 35/100 | Range \<Rightarrow> 30/100 | Value \<Rightarrow> 25/100 | Newness \<Rightarrow> 10/100))]"

definition weight_map :: "(string \<times> dim) list" where
  "weight_map =
    [(''Lowest price'', Price),
     (''Longest range'', Range),
     (''Brand reputation'', Newness),
     (''Latest technology'', Newness),
     (''Best value (range/price)'', Value)]"

text \<open>\<^verbatim>\<open>weight_map.get(p, default)\<close>\<close>

definition weight_map_get :: "string \<Rightarrow> dim \<Rightarrow> dim" where
  "weight_map_get p dflt = (case map_of weight_map p of None \<Rightarrow> dflt | Some d \<Rightarrow> d)"

text \<open>\<^verbatim>\<open>weights[k] += x\<close>\<close>

definition add_weight :: "dim \<Rightarrow> rat \<Rightarrow> weights \<Rightarrow> weights" where
  "add_weight k x w = w(k := w k + x)"

text \<open>
  Priority mode:
  \<^verbatim>\<open>
  weights = {'price': 0, 'range': 0, 'value': 0, 'newness': 0}
  weights[weight_map.get(p1, 'value')] += 0.50
  weights[weight_map.get(p2, 'price')] += 0.30
  weights[weight_map.get(p3, 'range')] += 0.20
  \<close>
\<close>

definition priority_weights :: "string \<Rightarrow> string \<Rightarrow> string \<Rightarrow> weights" where
  "priority_weights p1 p2 p3 =
     add_weight (weight_map_get p3 Range) (20/100)
       (add_weight (weight_map_get p2 Price) (30/100)
          (add_weight (weight_map_get p1 Value) (50/100) (\<lambda>d. 0)))"

definition default_weights :: weights where
  "default_weights = (\<lambda>d. case d of Price \<Rightarrow> 35/100 | Range \<Rightarrow> 30/100 | Value \<Rightarrow> 25/100 | Newness \<Rightarrow> 10/100)"

definition select_weights ::
  "string \<Rightarrow> string \<Rightarrow> (string \<times> string \<times> string) option \<Rightarrow> py_error + weights" where
  "select_weights method use_case priorities =
     (if method = ''quick'' then
        (case map_of use_case_weights use_case of
           None \<Rightarrow> Inl (KeyError use_case)
         | Some w \<Rightarrow> Inr w)
      else
        (case priorities of
           Some (p1, p2, p3) \<Rightarrow> Inr (priority_weights p1 p2 p3)
         | None \<Rightarrow> Inr default_weights))"

section \<open>Composite score\<close>

text \<open>
  \<^verbatim>\<open>
  score_df['range_score'] = score_df.get('Electric Range_norm', 0.5)
  score_df['price_score'] = 1 - score_df.get('Base MSRP_norm', 0.5)
  score_df['newness_score'] = score_df.get('Model Year_norm', 0.5)
  ...
  score_df['composite_score'] = (
      weights['price'] * score_df['price_score'] +
      weights['range'] * score_df['range_score'] +
      weights['value'] * score_df['value_score'] +
      weights['newness'] * score_df['newness_score'] +
      score_df['cafv_bonus'])
  \<close>
  The three \<^verbatim>\<open>_norm\<close> columns always exist at this point, so the defaults of
  \<^verbatim>\<open>get\<close> are never used.
\<close>

definition composite_of :: "weights \<Rightarrow> rat option \<Rightarrow> rat option \<Rightarrow> rat option \<Rightarrow> rat option \<Rightarrow> rat option \<Rightarrow> rat option" where
  "composite_of w ps rs vs ns cb =
     nan_add (nan_add (nan_add (nan_add
        (nan_mul (Some (w Price)) ps)
        (nan_mul (Some (w Range)) rs))
        (nan_mul (Some (w Value)) vs))
        (nan_mul (Some (w Newness)) ns))
        cb"

text \<open>
  The statements of \<^verbatim>\<open>display_recommendations\<close> that write the score columns, in
  the order of the source. \<open>assign name cell f\<close> is the column assignment
  \<^verbatim>\<open>score_df[name] = ...\<close>: the column keeps its place if it exists and is
  appended otherwise, and \<open>cell f r\<close> is the new row made from row \<open>r\<close> of the
  frame \<open>f\<close> as it is when the statement runs.
\<close>

definition add_col :: "string \<Rightarrow> string list \<Rightarrow> string list" where
  "add_col name cols = (if name \<in> set cols then cols else cols @ [name])"

definition assign :: "string \<Rightarrow> (frame \<Rightarrow> vehicle \<Rightarrow> vehicle) \<Rightarrow> frame \<Rightarrow> frame" where
  "assign name cell f = \<lparr>columns = add_col name (columns f), rows = map (cell f) (rows f)\<rparr>"

definition normalize_scores :: "frame \<Rightarrow> frame" where
  "normalize_scores f0 =
     (let f1 = assign ''Electric Range_norm''
                 (\<lambda>f r. r\<lparr>Electric_Range_norm := col_norm f ''Electric Range'' Electric_Range r\<rparr>) f0;
          f2 = assign ''Base MSRP_norm''
                 (\<lambda>f r. r\<lparr>Base_MSRP_norm := col_norm f ''Base MSRP'' Base_MSRP r\<rparr>) f1;
          f3 = assign ''Model Year_norm''
                 (\<lambda>f r. r\<lparr>Model_Year_norm := col_norm f ''Model Year'' Model_Year r\<rparr>) f2;
          f4 = assign ''range_score'' (\<lambda>f r. r\<lparr>range_score := Electric_Range_norm r\<rparr>) f3;
          f5 = assign ''price_score''
                 (\<lambda>f r. r\<lparr>price_score := nan_sub (Some 1) (Base_MSRP_norm r)\<rparr>) f4
      in assign ''newness_score'' (\<lambda>f r. r\<lparr>newness_score := Model_Year_norm r\<rparr>) f5)"

definition value_scores :: "frame \<Rightarrow> frame" where
  "value_scores f0 =
     (if ''Electric Range'' \<in> set (columns f0) \<and> ''Base MSRP'' \<in> set (columns f0) then
        (let f1 = assign ''value_raw'' (\<lambda>f r. r\<lparr>value_raw := value_raw_of r\<rparr>) f0
         in assign ''value_score''
              (\<lambda>f r. r\<lparr>value_score := value_score_cell (map value_raw (rows f)) (value_raw r)\<rparr>) f1)
      else assign ''value_score'' (\<lambda>f r. r\<lparr>value_score := Some (1/2)\<rparr>) f0)"

definition cafv_bonuses :: "string option \<Rightarrow> frame \<Rightarrow> frame" where
  "cafv_bonuses cafv_pref f0 =
     assign ''cafv_bonus'' (\<lambda>f r. r\<lparr>cafv_bonus := cafv_bonus_of f cafv_pref r\<rparr>) f0"

definition composite_scores :: "weights \<Rightarrow> frame \<Rightarrow> frame" where
  "composite_scores w f0 =
     assign ''composite_score''
       (\<lambda>f r. r\<lparr>composite_score :=
                   composite_of w (price_score r) (range_score r) (value_score r)
                     (newness_score r) (cafv_bonus r)\<rparr>) f0"

definition score_frame :: "frame \<Rightarrow> weights \<Rightarrow> string option \<Rightarrow> frame" where
  "score_frame df w cafv_pref =
     composite_scores w (cafv_bonuses cafv_pref (value_scores (normalize_scores df)))"

text \<open>
  The scored frame in closed form, each cell computed from the candidate frame
  \<open>df\<close> alone; \<open>score_frame_closed_form\<close> below proves that the statements
  compute it.
\<close>

definition score_row :: "frame \<Rightarrow> weights \<Rightarrow> string option \<Rightarrow> vehicle \<Rightarrow> vehicle" where
  "score_row df w cafv_pref r =
     (let rn = col_norm df ''Electric Range'' Electric_Range r;
          pn = col_norm df ''Base MSRP'' Base_MSRP r;
          yn = col_norm df ''Model Year'' Model_Year r;
          ps = nan_sub (Some 1) pn;
          vs = value_score_of df r;
          cb = cafv_bonus_of df cafv_pref r
      in r\<lparr>Electric_Range_norm := rn, Base_MSRP_norm := pn, Model_Year_norm := yn,
            range_score := rn, price_score := ps, newness_score := yn,
            value_raw := (if ''Electric Range'' \<in> set (columns df) \<and> ''Base MSRP'' \<in> set (columns df)
                          then value_raw_of r else value_raw r),
            value_score := vs, cafv_bonus := cb,
            composite_score := composite_of w ps rn vs yn cb\<rparr>)"

definition score_columns :: "string list \<Rightarrow> string list" where
  "score_columns cols =
     (let c1 = fold add_col [''Electric Range_norm'', ''Base MSRP_norm'', ''Model Year_norm'',
                             ''range_score'', ''price_score'', ''newness_score''] cols;
          c2 = (if ''Electric Range'' \<in> set cols \<and> ''Base MSRP'' \<in> set cols
                then add_col ''value_raw'' c1 else c1)
      in fold add_col [''value_score'', ''cafv_bonus'', ''composite_score''] c2)"

text \<open>The rows after the normalizing statements and the change made by the value
  statements, in closed form.\<close>

definition norm_row :: "frame \<Rightarrow> vehicle \<Rightarrow> vehicle" where
  "norm_row df r =
     r\<lparr>Electric_Range_norm := col_norm df ''Electric Range'' Electric_Range r,
       Base_MSRP_norm := col_norm df ''Base MSRP'' Base_MSRP r,
       Model_Year_norm := col_norm df ''Model Year'' Model_Year r,
       range_score := col_norm df ''Electric Range'' Electric_Range r,
       price_score := nan_sub (Some 1) (col_norm df ''Base MSRP'' Base_MSRP r),
       newness_score := col_norm df ''Model Year'' Model_Year r\<rparr>"

definition value_row :: "frame \<Rightarrow> vehicle \<Rightarrow> vehicle" where
  "value_row df r =
     r\<lparr>value_raw := (if ''Electric Range'' \<in> set (columns df) \<and> ''Base MSRP'' \<in> set (columns df)
                      then value_raw_of r else value_raw r),
       value_score := value_score_of df r\<rparr>"

section \<open>Ranking\<close>

text \<open>
  \<^verbatim>\<open>ranked = score_df.sort_values('composite_score', ascending=False)\<close>

  The sort is pandas' \<^verbatim>\<open>nargsort\<close> with the defaults \<^verbatim>\<open>kind='quicksort'\<close>
  and \<^verbatim>\<open>na_position='last'\<close>: the known keys are reversed, sorted in
  ascending order by numpy's \<^verbatim>\<open>argsort\<close>, reversed again, and the positions of
  the missing keys are appended in their original order. numpy's sort is not part of
  the repository and its default kind is not stable, so it is a parameter here:
  \<open>argsort xs\<close> lists the positions of \<open>xs\<close> in ascending order of their values,
  and \<open>argsort_ok\<close> is all that is known of it.
\<close>

definition argsort_ok :: "(rat list \<Rightarrow> nat list) \<Rightarrow> bool" where
  "argsort_ok argsort =
     (\<forall>xs. length (argsort xs) = length xs \<and> set (argsort xs) = {0..<length xs} \<and>
           sorted (map (\<lambda>k. xs ! k) (argsort xs)))"

definition nargsort_desc :: "(rat list \<Rightarrow> nat list) \<Rightarrow> rat option list \<Rightarrow> nat list" where
  "nargsort_desc argsort items =
     (let idx = [0..<length items];
          non_nans = rev (dropna items);
          non_nan_idx = rev (filter (\<lambda>i. items ! i \<noteq> None) idx);
          nan_idx = filter (\<lambda>i. items ! i = None) idx;
          indexer = rev (map (\<lambda>k. non_nan_idx ! k) (argsort non_nans))
      in indexer @ nan_idx)"

text \<open>One admissible sort, used to run the model on examples: insertion sort on the
  positions.\<close>

definition insertion_argsort :: "rat list \<Rightarrow> nat list" where
  "insertion_argsort xs = sort_key (\<lambda>k. xs ! k) [0..<length xs]"

text \<open>Another admissible sort: it lists equal values in the reverse of their positions.\<close>

definition reversing_argsort :: "rat list \<Rightarrow> nat list" where
  "reversing_argsort xs = rev (sort_key (\<lambda>k. - (xs ! k)) [0..<length xs])"

text \<open>\<open>precedes ix j i\<close>: position \<open>j\<close> is listed before position \<open>i\<close> in \<open>ix\<close>.\<close>

definition precedes :: "nat list \<Rightarrow> nat \<Rightarrow> nat \<Rightarrow> bool" where
  "precedes ix j i = (\<exists>a b. a < b \<and> b < length ix \<and> ix ! a = j \<and> ix ! b = i)"

section \<open>Diverse-alternatives selector\<close>

text \<open>
  \<^verbatim>\<open>frame.nsmallest(1, col, keep)\<close> and \<^verbatim>\<open>frame.nlargest(1, col)\<close> on a frame
  with at least one row \<open>c # cs\<close>: the row with the least (greatest) known value of
  the column, the first such row for \<^verbatim>\<open>keep='first'\<close> (the default) and the
  last one for \<^verbatim>\<open>keep='last'\<close>; rows with a missing value come after all others,
  so the first row is returned when no value is known. \<open>select1 better key best rs\<close>
  scans \<open>rs\<close> and replaces \<open>best\<close> by a row whose known key is \<open>better\<close>.
\<close>

fun select1 :: "(rat \<Rightarrow> rat \<Rightarrow> bool) \<Rightarrow> (vehicle \<Rightarrow> rat option) \<Rightarrow> vehicle \<Rightarrow> vehicle list \<Rightarrow> vehicle" where
  "select1 better key best [] = best"
| "select1 better key best (r # rs) =
     (case key r of
        None \<Rightarrow> select1 better key best rs
      | Some b \<Rightarrow>
         (case key best of
            None \<Rightarrow> select1 better key r rs
          | Some a \<Rightarrow> if better b a then select1 better key r rs else select1 better key best rs))"

definition nsmallest_first :: "(vehicle \<Rightarrow> rat option) \<Rightarrow> vehicle \<Rightarrow> vehicle list \<Rightarrow> vehicle" where
  "nsmallest_first key c cs = select1 (\<lambda>b a. b < a) key c cs"

definition nsmallest_last :: "(vehicle \<Rightarrow> rat option) \<Rightarrow> vehicle \<Rightarrow> vehicle list \<Rightarrow> vehicle" where
  "nsmallest_last key c cs = select1 (\<lambda>b a. b \<le> a) key c cs"

definition nlargest_first :: "(vehicle \<Rightarrow> rat option) \<Rightarrow> vehicle \<Rightarrow> vehicle list \<Rightarrow> vehicle" where
  "nlargest_first key c cs = select1 (\<lambda>b a. b > a) key c cs"

text \<open>
  An alternative is the source's triple of a title, the row and a highlight. The
  three titles are \<^verbatim>\<open>Most Affordable\<close>, \<^verbatim>\<open>Longest Range\<close> and
  \<^verbatim>\<open>Best Value\<close>; a highlight carries the number that the source formats into
  its text.
\<close>

datatype title = Most_Affordable | Longest_Range | Best_Value

datatype highlight = Best_price_alternative int | Maximum_range int | Mi_per_1k "rat option"

type_synonym alternative = "title \<times> vehicle \<times> highlight"

text \<open>\<^verbatim>\<open>ranked_df[~ranked_df['Make'].isin(used_makes)]\<close>: a missing make is in the
  set exactly when a missing make was put there.\<close>

definition not_isin :: "string option list \<Rightarrow> vehicle list \<Rightarrow> vehicle list" where
  "not_isin used_makes rs = filter (\<lambda>r. Make r \<notin> set used_makes) rs"

text \<open>
  Strategy 1:
  \<^verbatim>\<open>
  price_candidates = ranked_df[~ranked_df['Make'].isin(used_makes)]
  if not price_candidates.empty and 'Base MSRP' in price_candidates.columns:
      best_price = price_candidates.nsmallest(1, 'Base MSRP').iloc[0]
      price_val = int(best_price['Base MSRP']) if pd.notna(best_price.get('Base MSRP')) else 0
      alternatives.append(("Most Affordable", best_price, f"Best price alternative: ${price_val:,}"))
      used_makes.add(best_price.get('Make'))
  \<close>
  Each strategy returns the slots it appends and the brands used afterwards.
\<close>

definition strategy_price :: "frame \<Rightarrow> string option list \<Rightarrow> alternative list \<times> string option list" where
  "strategy_price ranked_df used_makes =
     (case not_isin used_makes (rows ranked_df) of
        [] \<Rightarrow> ([], used_makes)
      | c # cs \<Rightarrow>
          if ''Base MSRP'' \<in> set (columns ranked_df) then
            (let best_price = nsmallest_first Base_MSRP c cs;
                 price_val = (case Base_MSRP best_price of None \<Rightarrow> 0 | Some p \<Rightarrow> py_int p)
             in ([(Most_Affordable, best_price, Best_price_alternative price_val)],
                 used_makes @ [Make best_price]))
          else ([], used_makes))"

text \<open>
  Strategy 2:
  \<^verbatim>\<open>
  range_candidates = ranked_df[~ranked_df['Make'].isin(used_makes)]
  if not range_candidates.empty and 'Electric Range' in range_candidates.columns:
      best_range = range_candidates.nsmallest(1, 'Electric Range', keep='last').iloc[-1]
      range_val = int(best_range['Electric Range']) if pd.notna(best_range.get('Electric Range')) else 0
      alternatives.append(("Longest Range", best_range, f"Maximum range: {range_val} miles"))
      used_makes.add(best_range.get('Make'))
  \<close>
\<close>

definition strategy_range :: "frame \<Rightarrow> string option list \<Rightarrow> alternative list \<times> string option list" where
  "strategy_range ranked_df used_makes =
     (case not_isin used_makes (rows ranked_df) of
        [] \<Rightarrow> ([], used_makes)
      | c # cs \<Rightarrow>
          if ''Electric Range'' \<in> set (columns ranked_df) then
            (let best_range = nsmallest_last Electric_Range c cs;
                 range_val = (case Electric_Range best_range of None \<Rightarrow> 0 | Some x \<Rightarrow> py_int x)
             in ([(Longest_Range, best_range, Maximum_range range_val)],
                 used_makes @ [Make best_range]))
          else ([], used_makes))"

text \<open>
  Strategy 3:
  \<^verbatim>\<open>
  value_candidates = ranked_df[~ranked_df['Make'].isin(used_makes)]
  if not value_candidates.empty and 'value_score' in value_candidates.columns:
      best_value = value_candidates.nlargest(1, 'value_score').iloc[0]
      if 'Electric Range' in best_value and 'Base MSRP' in best_value:
          range_val = best_value.get('Electric Range', 0)
          price_val = best_value.get('Base MSRP', 1)
          value_ratio = range_val / (price_val / 1000) if price_val > 0 else 0
          alternatives.append(("Best Value", best_value, f"{value_ratio:.1f} mi per $1k spent"))
  \<close>
  A comparison with NaN is false, so a missing price gives the ratio 0.
\<close>

definition value_ratio_of :: "vehicle \<Rightarrow> rat option" where
  "value_ratio_of best_value =
     (case Base_MSRP best_value of
        None \<Rightarrow> Some 0
      | Some price_val \<Rightarrow>
          if price_val > 0
          then nan_div (Electric_Range best_value) (Some (price_val / 1000))
          else Some 0)"

definition strategy_value :: "frame \<Rightarrow> string option list \<Rightarrow> alternative list" where
  "strategy_value ranked_df used_makes =
     (case not_isin used_makes (rows ranked_df) of
        [] \<Rightarrow> []
      | c # cs \<Rightarrow>
          if ''value_score'' \<in> set (columns ranked_df) then
            (let best_value = nlargest_first value_score c cs
             in if ''Electric Range'' \<in> set (columns ranked_df) \<and> ''Base MSRP'' \<in> set (columns ranked_df)
                then [(Best_Value, best_value, Mi_per_1k (value_ratio_of best_value))]
                else [])
          else [])"

text \<open>
  \<^verbatim>\<open>
  def get_diverse_alternatives(ranked_df, top_vehicle):
      alternatives = []
      used_makes = {top_vehicle.get('Make')}
      ... strategies 1, 2, 3 ...
      return alternatives[:3]
  \<close>
  Every strategy starts by indexing \<^verbatim>\<open>ranked_df['Make']\<close>, which raises
  \<^verbatim>\<open>KeyError\<close> when the frame has no such column.
\<close>

definition get_diverse_alternatives :: "frame \<Rightarrow> vehicle \<Rightarrow> py_error + alternative list" where
  "get_diverse_alternatives ranked_df top_vehicle =
     (if ''Make'' \<notin> set (columns ranked_df) then Inl (KeyError ''Make'')
      else
        (let used0 = [Make top_vehicle];
             s1 = strategy_price ranked_df used0;
             s2 = strategy_range ranked_df (snd s1);
             s3 = strategy_value ranked_df (snd s2)
         in Inr (take 3 (fst s1 @ fst s2 @ s3))))"

section \<open>The scorer\<close>

text \<open>
  \<^verbatim>\<open>display_recommendations\<close> without its rendering: the scores, the ranking, the
  top match and the alternatives. It returns nothing for an empty frame
  (\<^verbatim>\<open>df.empty\<close>: no row or no column). Of the calls that render the result as
  HTML, the model keeps the places where they raise.
\<close>

text \<open>
  Rendering the top match (lines 534 to 589). The card formats the price with
  \<^verbatim>\<open>
  <strong ...>${int(top_vehicle['Base MSRP']):,}</strong> if pd.notna(top_vehicle.get('Base MSRP')) else 'N/A'
  \<close>
  inside an f-string: only \<^verbatim>\<open>int(top_vehicle['Base MSRP'])\<close> is within the braces, the
  conditional after it is text of the page. So the price is always indexed and
  converted: \<^verbatim>\<open>KeyError\<close> when the frame has no price column, \<^verbatim>\<open>ValueError\<close>
  when the price of the top match is NaN. (The year and the range of the card are
  guarded inside their braces.) The reasons then convert further numbers:
  \<^verbatim>\<open>
  if weights['price'] > 0.35:   ... int(top_vehicle.get('Base MSRP', 0)) ...
  if weights['range'] > 0.35:   ... int(top_vehicle.get('Electric Range', 0)) ...
  if weights['value'] > 0.20:   ... top_vehicle.get('Electric Range', 0) / (top_vehicle.get('Base MSRP', 1) / 1000) ...
  if weights['newness'] > 0.20: ... int(top_vehicle.get('Model Year', 0)) ...
  \<close>
  The price is known once the card has been built, so the first cannot raise; the
  quotient is a division of numpy numbers, which does not raise.
\<close>

definition render_top :: "frame \<Rightarrow> weights \<Rightarrow> vehicle \<Rightarrow> py_error + unit" where
  "render_top ranked_df w top_vehicle =
     (if ''Base MSRP'' \<notin> set (columns ranked_df) then Inl (KeyError ''Base MSRP'')
      else if Base_MSRP top_vehicle = None then Inl ValueError
      else if w Range > 35/100 \<and> ''Electric Range'' \<in> set (columns ranked_df) \<and>
              Electric_Range top_vehicle = None then Inl ValueError
      else if w Newness > 20/100 \<and> ''Model Year'' \<in> set (columns ranked_df) \<and>
              Model_Year top_vehicle = None then Inl ValueError
      else Inr ())"

text \<open>
  Rendering the alternatives (lines 597 to 632) guards every number inside its braces
  and does not raise. The comparison table (lines 638 to 650) converts the composite
  scores of the first ten rows to integers:
  \<^verbatim>\<open>
  display_df = ranked[comparison_cols].head(10).copy()
  display_df['Match Score'] = (display_df['composite_score'] * 100).round(0).astype(int).astype(str) + '%'
  \<close>
  \<^verbatim>\<open>astype(int)\<close> raises \<^verbatim>\<open>ValueError\<close> on a NaN.
\<close>

definition render_table :: "frame \<Rightarrow> py_error + unit" where
  "render_table ranked_df =
     (if list_ex (\<lambda>r. composite_score r = None) (take 10 (rows ranked_df))
      then Inl ValueError else Inr ())"

record recommendation =
  ranked :: frame
  ranking :: "nat list"
  top_vehicle :: vehicle
  alternatives :: "alternative list"

definition empty_frame :: "frame \<Rightarrow> bool" where
  "empty_frame df = (rows df = [] \<or> columns df = [])"

definition sort_values_desc :: "(rat list \<Rightarrow> nat list) \<Rightarrow> frame \<Rightarrow> nat list" where
  "sort_values_desc argsort score_df = nargsort_desc argsort (map composite_score (rows score_df))"

definition take_rows :: "frame \<Rightarrow> nat list \<Rightarrow> frame" where
  "take_rows df ix = df\<lparr>rows := map (\<lambda>i. rows df ! i) ix\<rparr>"

definition display_recommendations ::
  "(rat list \<Rightarrow> nat list) \<Rightarrow> frame \<Rightarrow> string \<Rightarrow> string \<Rightarrow> string \<Rightarrow> string \<Rightarrow>
   (string \<times> string \<times> string) option \<Rightarrow> string option \<Rightarrow> py_error + recommendation option" where
  "display_recommendations argsort df use_case budget range_need method priorities cafv_pref =
     (if empty_frame df then Inr None
      else
        (case select_weights method use_case priorities of
           Inl e \<Rightarrow> Inl e
         | Inr w \<Rightarrow>
            (let score_df = score_frame df w cafv_pref;
                 ix = sort_values_desc argsort score_df;
                 ranked_df = take_rows score_df ix
             in (case rows ranked_df of
                   [] \<Rightarrow> Inl IndexError
                 | top_row # _ \<Rightarrow>
                    (case render_top ranked_df w top_row of
                       Inl e \<Rightarrow> Inl e
                     | Inr _ \<Rightarrow>
                        (case get_diverse_alternatives ranked_df top_row of
                           Inl e \<Rightarrow> Inl e
                         | Inr alts \<Rightarrow>
                            (case render_table ranked_df of
                               Inl e \<Rightarrow> Inl e
                             | Inr _ \<Rightarrow>
                                 Inr (Some \<lparr>ranked = ranked_df, ranking = ix,
                                             top_vehicle = top_row, alternatives = alts\<rparr>))))))))"

text \<open>
  The quick match of \<^verbatim>\<open>create_improved_ev_advisor\<close> (lines 154 to 182): the budget
  filter, the range filter, and the scorer on what is left.
  \<^verbatim>\<open>
  if candidates.empty:
      st.warning("No vehicles match these criteria in the current dataset.")
  else:
      display_recommendations(candidates, use_case, budget_choice, range_need, method="quick")
  \<close>
\<close>

definition quick_match ::
  "(rat list \<Rightarrow> nat list) \<Rightarrow> frame \<Rightarrow> string \<Rightarrow> string \<Rightarrow> string \<Rightarrow>
   py_error + recommendation option" where
  "quick_match argsort df_filtered use_case budget_choice range_need =
     (case budget_filter budget_choice df_filtered of
        Inl e \<Rightarrow> Inl e
      | Inr priced \<Rightarrow>
         (case range_filter use_case range_need priced of
            Inl e \<Rightarrow> Inl e
          | Inr candidates \<Rightarrow>
              if empty_frame candidates then Inr None
              else display_recommendations argsort candidates use_case budget_choice range_need
                     ''quick'' None None))"

section \<open>The scorer as a call on shared frames\<close>

text \<open>
  A pandas frame is a mutable object and \<^verbatim>\<open>display_recommendations\<close> receives a
  reference to the caller's frame. To state what a call may change, the frames that
  exist are kept in a heap and a reference is a position in it.
  \<^verbatim>\<open>score_df = df.copy()\<close> makes a new frame; every statement
  \<^verbatim>\<open>score_df[...] = ...\<close> writes the frame that \<open>score_df\<close> refers to;
  \<^verbatim>\<open>sort_values\<close> makes a new frame again. The rendering and the selector only
  read \<^verbatim>\<open>ranked\<close>: the frames they take out of it are values of their own. The call
  returns its result together with the heap it leaves behind.
\<close>

type_synonym ref = nat

type_synonym heap = "frame list"

definition new_frame :: "frame \<Rightarrow> heap \<Rightarrow> ref \<times> heap" where
  "new_frame f h = (length h, h @ [f])"

definition update_at :: "ref \<Rightarrow> (frame \<Rightarrow> frame) \<Rightarrow> heap \<Rightarrow> heap" where
  "update_at r g h = h[r := g (h ! r)]"

definition display_recommendations_call ::
  "(rat list \<Rightarrow> nat list) \<Rightarrow> heap \<Rightarrow> ref \<Rightarrow> string \<Rightarrow> string \<Rightarrow> string \<Rightarrow> string \<Rightarrow>
   (string \<times> string \<times> string) option \<Rightarrow> string option \<Rightarrow>
   (py_error + recommendation option) \<times> heap" where
  "display_recommendations_call argsort h df use_case budget range_need method priorities cafv_pref =
     (if empty_frame (h ! df) then (Inr None, h)
      else
        (let (score_df, h1) = new_frame (h ! df) h;
             h2 = update_at score_df normalize_scores h1;
             h3 = update_at score_df value_scores h2;
             h4 = update_at score_df (cafv_bonuses cafv_pref) h3
         in (case select_weights method use_case priorities of
               Inl e \<Rightarrow> (Inl e, h4)
             | Inr w \<Rightarrow>
                (let h5 = update_at score_df (composite_scores w) h4;
                     ix = sort_values_desc argsort (h5 ! score_df);
                     (ranked_df, h6) = new_frame (take_rows (h5 ! score_df) ix) h5
                 in (case rows (h6 ! ranked_df) of
                       [] \<Rightarrow> (Inl IndexError, h6)
                     | top_row # _ \<Rightarrow>
                        (case render_top (h6 ! ranked_df) w top_row of
                           Inl e \<Rightarrow> (Inl e, h6)
                         | Inr _ \<Rightarrow>
                            (case get_diverse_alternatives (h6 ! ranked_df) top_row of
                               Inl e \<Rightarrow> (Inl e, h6)
                             | Inr alts \<Rightarrow>
                                (case render_table (h6 ! ranked_df) of
                                   Inl e \<Rightarrow> (Inl e, h6)
                                 | Inr _ \<Rightarrow>
                                     (Inr (Some \<lparr>ranked = h6 ! ranked_df, ranking = ix,
                                                 top_vehicle = top_row, alternatives = alts\<rparr>),
                                      h6)))))))))"

section \<open>Stating the properties\<close>

text \<open>The brand of a slot, the place of its title in the fixed order, and the titles,
  brands and ranges of the slots of a recommendation.\<close>

definition slot_make :: "alternative \<Rightarrow> string option" where
  "slot_make a = Make (fst (snd a))"

definition slot_rank :: "alternative \<Rightarrow> nat" where
  "slot_rank a = (case fst a of Most_Affordable \<Rightarrow> 0 | Longest_Range \<Rightarrow> 1 | Best_Value \<Rightarrow> 2)"

definition slots ::
  "py_error + recommendation option \<Rightarrow> py_error + (title \<times> string option \<times> rat option) list option" where
  "slots res =
     map_sum id (map_option (\<lambda>r. map (\<lambda>a. (fst a, slot_make a, Electric_Range (fst (snd a))))
                                       (alternatives r))) res"

text \<open>A column is degenerate when its known values are all equal, or none is known.\<close>

definition constant_or_missing :: "rat option list \<Rightarrow> bool" where
  "constant_or_missing cells = (case dropna cells of [] \<Rightarrow> True | x # xs \<Rightarrow> list_all (\<lambda>y. y = x) xs)"

text \<open>The three normalized columns of the loop: the name of the column, its field, the
  field of its \<^verbatim>\<open>_norm\<close> column and the score that is computed from it.\<close>

definition norm_columns ::
  "(string \<times> (vehicle \<Rightarrow> rat option) \<times> (vehicle \<Rightarrow> rat option) \<times> (vehicle \<Rightarrow> rat option)) list" where
  "norm_columns =
     [(''Electric Range'', Electric_Range, Electric_Range_norm, range_score),
      (''Base MSRP'', Base_MSRP, Base_MSRP_norm, price_score),
      (''Model Year'', Model_Year, Model_Year_norm, newness_score)]"

section \<open>Example data\<close>

text \<open>Concrete rows and frames on which the model is run.\<close>

definition bev :: "string option" where
  "bev = Some ''Battery Electric Vehicle (BEV)''"

definition data_columns :: "string list" where
  "data_columns = [''Make'', ''Model'', ''Model Year'', ''Electric Range'', ''Base MSRP'',
                   ''Electric Vehicle Type'']"

definition tesla :: vehicle where
  "tesla = car (Some ''TESLA'') (Some ''MODEL 3'') (Some 2022) (Some 300) (Some 40000) bev None"

definition nissan :: vehicle where
  "nissan = car (Some ''NISSAN'') (Some ''LEAF'') (Some 2020) (Some 150) (Some 30000) bev None"

definition chevrolet :: vehicle where
  "chevrolet = car (Some ''CHEVROLET'') (Some ''BOLT EV'') (Some 2021) (Some 250) (Some 35000) bev None"

definition unpriced :: vehicle where
  "unpriced = car (Some ''RIVIAN'') (Some ''R1T'') (Some 2023) (Some 314) None bev None"

definition three_cars :: frame where
  "three_cars = \<lparr>columns = data_columns, rows = [tesla, nissan, chevrolet]\<rparr>"

definition unpriced_frame :: frame where
  "unpriced_frame = \<lparr>columns = data_columns, rows = [unpriced]\<rparr>"

definition ford :: vehicle where
  "ford = car (Some ''FORD'') (Some ''MUSTANG MACH-E'') (Some 2022) (Some 310) (Some 50000) bev None"

definition kia :: vehicle where
  "kia = car (Some ''KIA'') (Some ''NIRO'') (Some 2021) (Some 240) (Some 39000) bev None"

definition five_cars :: frame where
  "five_cars = \<lparr>columns = data_columns, rows = [tesla, nissan, chevrolet, ford, kia]\<rparr>"

definition scored_five :: frame where
  "scored_five = score_frame five_cars default_weights None"


text \<open>Two cars without a price, and a frame with a car whose range is missing.\<close>

definition unpriced_bmw :: vehicle where
  "unpriced_bmw = car (Some ''BMW'') (Some ''I4'') (Some 2022) (Some 270) None bev None"

definition no_price_frame :: frame where
  "no_price_frame = \<lparr>columns = data_columns, rows = [unpriced, unpriced_bmw]\<rparr>"

text \<open>The same two cars in a frame that has no price column at all.\<close>

definition price_column_absent :: frame where
  "price_column_absent =
     \<lparr>columns = [''Make'', ''Model'', ''Model Year'', ''Electric Range'', ''Electric Vehicle Type''],
      rows = [unpriced, unpriced_bmw]\<rparr>"

definition no_range_car :: vehicle where
  "no_range_car = car (Some ''VOLVO'') (Some ''XC40'') (Some 2023) None (Some 45000) bev None"

definition partial_frame :: frame where
  "partial_frame = \<lparr>columns = data_columns, rows = [tesla, no_range_car, nissan]\<rparr>"

text \<open>Two cars that score alike.\<close>

definition twin_a :: vehicle where
  "twin_a = car (Some ''HYUNDAI'') (Some ''KONA'') (Some 2022) (Some 258) (Some 34000) bev None"

definition twin_b :: vehicle where
  "twin_b = car (Some ''KIA'') (Some ''NIRO'') (Some 2022) (Some 258) (Some 34000) bev None"

definition twins :: frame where
  "twins = \<lparr>columns = data_columns, rows = [twin_a, twin_b]\<rparr>"

section \<open>Properties\<close>

subsection \<open>Budget filter\<close>

text \<open>
  C2, as stated, fails: a vehicle whose price is unknown is given the price 999999,
  which is also the upper bound of the tier \<^verbatim>\<open>Luxury (> $80k)\<close>, so the filter
  keeps it for that tier although its price is not known.
\<close>

theorem budget_filter_unknown_price_luxury_counterexample:
  "Base_MSRP unpriced = None \<and> \<not> known_within 80000 999999 unpriced \<and>
   rows unpriced_frame = [unpriced] \<and>
   budget_filter ''Luxury (> $80k)'' unpriced_frame = Inr unpriced_frame"
  by (simp add: unpriced_def unpriced_frame_def data_columns_def car_def known_within_def
      budget_filter_def budget_ranges_def budget_mask_def fillna_def)

text \<open>
  C2, amended: for every budget choice of the table, the filter keeps exactly the rows
  whose price is known and inside the inclusive interval, and the rows whose price is
  unknown when the choice is \<^verbatim>\<open>Luxury (> $80k)\<close> or \<^verbatim>\<open>No preference\<close>; a
  row with unknown price is dropped for the three other choices. A frame without
  the price column is returned unchanged.
\<close>

theorem budget_filter_sentinel:
  assumes "map_of budget_ranges budget_choice = Some (min_price, max_price)"
  shows "budget_filter budget_choice df =
           Inr (if ''Base MSRP'' \<in> set (columns df)
                then df\<lparr>rows := filter (budget_mask min_price max_price) (rows df)\<rparr> else df) \<and>
         (budget_mask min_price max_price r \<longleftrightarrow>
            known_within min_price max_price r \<or>
            (Base_MSRP r = None \<and>
             (budget_choice = ''Luxury (> $80k)'' \<or> budget_choice = ''No preference'')))"
proof
  show "budget_filter budget_choice df =
           Inr (if ''Base MSRP'' \<in> set (columns df)
                then df\<lparr>rows := filter (budget_mask min_price max_price) (rows df)\<rparr> else df)"
    using assms by (simp add: budget_filter_def)
next
  show "budget_mask min_price max_price r \<longleftrightarrow>
            known_within min_price max_price r \<or>
            (Base_MSRP r = None \<and>
             (budget_choice = ''Luxury (> $80k)'' \<or> budget_choice = ''No preference''))"
    using assms
    by (auto simp: budget_ranges_def budget_mask_def known_within_def fillna_def
        split: if_splits option.splits)
qed

theorem budget_filter_sentinel_witness:
  "map_of budget_ranges ''Mid-range ($40k - $60k)'' = Some (40000, 60000) \<and>
   budget_filter ''Mid-range ($40k - $60k)'' three_cars = Inr (three_cars\<lparr>rows := [tesla]\<rparr>) \<and>
   \<not> budget_mask 40000 60000 unpriced"
proof -
  have h: "map_of budget_ranges ''Mid-range ($40k - $60k)'' = Some (40000, 60000)"
    by (simp add: budget_ranges_def)
  have k: "\<not> known_within 40000 60000 unpriced \<and> Base_MSRP unpriced = None"
    by (simp add: known_within_def unpriced_def car_def)
  have f: "filter (budget_mask 40000 60000) (rows three_cars) = [tesla]"
    by (simp add: three_cars_def tesla_def nissan_def chevrolet_def car_def budget_mask_def fillna_def)
  have c: "''Base MSRP'' \<in> set (columns three_cars)"
    by (simp add: three_cars_def data_columns_def)
  show ?thesis
    using budget_filter_sentinel [OF h, of three_cars unpriced] h k f c by simp
qed

subsection \<open>Weight selector\<close>

text \<open>
  C7: in priority mode the weight of a dimension is the sum of 0.50 if the first
  label maps to it, 0.30 if the second does and 0.20 if the third does (labels the
  map does not know fall back to value, price and range); \<^verbatim>\<open>Brand reputation\<close>
  and \<^verbatim>\<open>Latest technology\<close> both map to newness. Nothing is renormalised: the
  four weights always add up to 1, however they are spread.
\<close>

theorem priority_weights_accumulate:
  "select_weights ''detailed'' use_case (Some (p1, p2, p3)) = Inr (priority_weights p1 p2 p3) \<and>
   priority_weights p1 p2 p3 d =
     (if weight_map_get p1 Value = d then 50/100 else 0) +
     (if weight_map_get p2 Price = d then 30/100 else 0) +
     (if weight_map_get p3 Range = d then 20/100 else 0) \<and>
   weight_map_get ''Brand reputation'' x = Newness \<and>
   weight_map_get ''Latest technology'' x = Newness \<and>
   weight_map_get ''Lowest price'' x = Price \<and>
   weight_map_get ''Longest range'' x = Range \<and>
   weight_map_get ''Best value (range/price)'' x = Value \<and>
   priority_weights p1 p2 p3 Price + priority_weights p1 p2 p3 Range +
   priority_weights p1 p2 p3 Value + priority_weights p1 p2 p3 Newness = 1"
proof -
  have sel: "select_weights ''detailed'' use_case (Some (p1, p2, p3)) = Inr (priority_weights p1 p2 p3)"
    by (simp add: select_weights_def)
  have acc: "priority_weights p1 p2 p3 d =
     (if weight_map_get p1 Value = d then 50/100 else 0) +
     (if weight_map_get p2 Price = d then 30/100 else 0) +
     (if weight_map_get p3 Range = d then 20/100 else 0)"
    by (simp add: priority_weights_def add_weight_def)
  have labels: "weight_map_get ''Brand reputation'' x = Newness \<and>
     weight_map_get ''Latest technology'' x = Newness \<and>
     weight_map_get ''Lowest price'' x = Price \<and>
     weight_map_get ''Longest range'' x = Range \<and>
     weight_map_get ''Best value (range/price)'' x = Value"
    by (simp add: weight_map_get_def weight_map_def)
  have total: "priority_weights p1 p2 p3 Price + priority_weights p1 p2 p3 Range +
     priority_weights p1 p2 p3 Value + priority_weights p1 p2 p3 Newness = 1"
    by (cases "weight_map_get p1 Value"; cases "weight_map_get p2 Price";
        cases "weight_map_get p3 Range"; simp add: priority_weights_def add_weight_def)
  from sel acc labels total show ?thesis by simp
qed

text \<open>Two ranks on one dimension: newness gets 0.80 and price 0.20.\<close>

lemma priority_weights_stack_example:
  "priority_weights ''Brand reputation'' ''Latest technology'' ''Lowest price'' Newness = 80/100 \<and>
   priority_weights ''Brand reputation'' ''Latest technology'' ''Lowest price'' Price = 20/100 \<and>
   priority_weights ''Brand reputation'' ''Latest technology'' ''Lowest price'' Range = 0 \<and>
   priority_weights ''Brand reputation'' ''Latest technology'' ''Lowest price'' Value = 0"
  by (simp add: priority_weights_def add_weight_def weight_map_get_def weight_map_def)

subsection \<open>Diverse alternatives\<close>

lemma select1_in: "select1 better key best rs \<in> set (best # rs)"
  by (induction rs arbitrary: best) (auto split: option.splits)

lemma not_isin_pick:
  assumes "not_isin used rs = c # cs" and "v \<in> set (c # cs)"
  shows "Make v \<notin> set used \<and> v \<in> set rs"
proof -
  from assms have "v \<in> set (not_isin used rs)" by simp
  then show ?thesis by (simp add: not_isin_def)
qed

lemma strategy_price_cases:
  "(strategy_price df used = ([], used)) \<or>
   (\<exists>v h. strategy_price df used = ([(Most_Affordable, v, h)], used @ [Make v]) \<and>
          Make v \<notin> set used \<and> v \<in> set (rows df))"
proof (cases "not_isin used (rows df)")
  case Nil
  then show ?thesis by (simp add: strategy_price_def)
next
  case (Cons c cs)
  show ?thesis
  proof (cases "''Base MSRP'' \<in> set (columns df)")
    case False
    with Cons show ?thesis by (simp add: strategy_price_def)
  next
    case True
    let ?v = "nsmallest_first Base_MSRP c cs"
    have "?v \<in> set (c # cs)" unfolding nsmallest_first_def by (rule select1_in)
    with Cons have "Make ?v \<notin> set used \<and> ?v \<in> set (rows df)" by (rule not_isin_pick)
    with Cons True show ?thesis by (simp add: strategy_price_def Let_def)
  qed
qed

lemma strategy_range_cases:
  "(strategy_range df used = ([], used)) \<or>
   (\<exists>v h. strategy_range df used = ([(Longest_Range, v, h)], used @ [Make v]) \<and>
          Make v \<notin> set used \<and> v \<in> set (rows df))"
proof (cases "not_isin used (rows df)")
  case Nil
  then show ?thesis by (simp add: strategy_range_def)
next
  case (Cons c cs)
  show ?thesis
  proof (cases "''Electric Range'' \<in> set (columns df)")
    case False
    with Cons show ?thesis by (simp add: strategy_range_def)
  next
    case True
    let ?v = "nsmallest_last Electric_Range c cs"
    have "?v \<in> set (c # cs)" unfolding nsmallest_last_def by (rule select1_in)
    with Cons have "Make ?v \<notin> set used \<and> ?v \<in> set (rows df)" by (rule not_isin_pick)
    with Cons True show ?thesis by (simp add: strategy_range_def Let_def)
  qed
qed

lemma strategy_value_cases:
  "(strategy_value df used = []) \<or>
   (\<exists>v h. strategy_value df used = [(Best_Value, v, h)] \<and>
          Make v \<notin> set used \<and> v \<in> set (rows df))"
proof (cases "not_isin used (rows df)")
  case Nil
  then show ?thesis by (simp add: strategy_value_def)
next
  case (Cons c cs)
  let ?v = "nlargest_first value_score c cs"
  have "?v \<in> set (c # cs)" unfolding nlargest_first_def by (rule select1_in)
  with Cons have "Make ?v \<notin> set used \<and> ?v \<in> set (rows df)" by (rule not_isin_pick)
  with Cons show ?thesis by (simp add: strategy_value_def Let_def)
qed

lemma strategies_invariant:
  assumes "alts = fst (strategy_price df [m]) @ fst (strategy_range df (snd (strategy_price df [m])))
                  @ strategy_value df (snd (strategy_range df (snd (strategy_price df [m]))))"
  shows "length alts \<le> 3 \<and> distinct (map slot_make alts) \<and> m \<notin> set (map slot_make alts) \<and>
         sorted_wrt (<) (map slot_rank alts) \<and> list_all (\<lambda>a. fst (snd a) \<in> set (rows df)) alts"
proof -
  consider (p0) "strategy_price df [m] = ([], [m])"
    | (p1) v1 h1 where "strategy_price df [m] = ([(Most_Affordable, v1, h1)], [m] @ [Make v1])"
        "Make v1 \<notin> set [m]" "v1 \<in> set (rows df)"
    using strategy_price_cases [of df "[m]"] by blast
  then show ?thesis
  proof cases
    case p0
    consider (r0) "strategy_range df [m] = ([], [m])"
      | (r1) v2 h2 where "strategy_range df [m] = ([(Longest_Range, v2, h2)], [m] @ [Make v2])"
          "Make v2 \<notin> set [m]" "v2 \<in> set (rows df)"
      using strategy_range_cases [of df "[m]"] by blast
    then show ?thesis
    proof cases
      case r0
      from strategy_value_cases [of df "[m]"] show ?thesis
        using p0 r0 assms by (auto simp: slot_make_def slot_rank_def)
    next
      case r1
      from strategy_value_cases [of df "[m] @ [Make v2]"] show ?thesis
        using p0 r1 assms by (auto simp: slot_make_def slot_rank_def)
    qed
  next
    case p1
    let ?u1 = "[m] @ [Make v1]"
    consider (r0) "strategy_range df ?u1 = ([], ?u1)"
      | (r1) v2 h2 where "strategy_range df ?u1 = ([(Longest_Range, v2, h2)], ?u1 @ [Make v2])"
          "Make v2 \<notin> set ?u1" "v2 \<in> set (rows df)"
      using strategy_range_cases [of df ?u1] by blast
    then show ?thesis
    proof cases
      case r0
      from strategy_value_cases [of df ?u1] show ?thesis
        using p1 r0 assms by (auto simp: slot_make_def slot_rank_def)
    next
      case r1
      from strategy_value_cases [of df "?u1 @ [Make v2]"] show ?thesis
        using p1 r1 assms by (auto simp: slot_make_def slot_rank_def)
    qed
  qed
qed

lemma strategies_empty_pool:
  assumes "not_isin [m] (rows df) = []"
  shows "fst (strategy_price df [m]) @ fst (strategy_range df (snd (strategy_price df [m])))
           @ strategy_value df (snd (strategy_range df (snd (strategy_price df [m])))) = []"
  using assms by (simp add: strategy_price_def strategy_range_def strategy_value_def)

text \<open>
  C8: whenever the selector returns, it returns at most three slots, no two of them
  of the same brand, none of the top match's brand, their titles in the fixed order
  affordability, range, value, and every slot a row of the frame; when no row is
  left outside the top match's brand it returns no slot. It returns (rather than
  raises) for every frame that has a \<^verbatim>\<open>Make\<close> column.
\<close>

theorem diverse_alternatives_distinct_brands:
  "(''Make'' \<in> set (columns df) \<longrightarrow> (\<exists>alts. get_diverse_alternatives df top_v = Inr alts)) \<and>
   (get_diverse_alternatives df top_v = Inr alts \<longrightarrow>
      length alts \<le> 3 \<and> distinct (map slot_make alts) \<and> Make top_v \<notin> set (map slot_make alts) \<and>
      sorted_wrt (<) (map slot_rank alts) \<and> list_all (\<lambda>a. fst (snd a) \<in> set (rows df)) alts \<and>
      (not_isin [Make top_v] (rows df) = [] \<longrightarrow> alts = []))"
proof (intro conjI impI)
  assume "''Make'' \<in> set (columns df)"
  then show "\<exists>alts. get_diverse_alternatives df top_v = Inr alts"
    by (simp add: get_diverse_alternatives_def Let_def)
next
  assume r: "get_diverse_alternatives df top_v = Inr alts"
  define m where "m = Make top_v"
  define slots where "slots = fst (strategy_price df [m]) @ fst (strategy_range df (snd (strategy_price df [m])))
                  @ strategy_value df (snd (strategy_range df (snd (strategy_price df [m]))))"
  from r have mk: "''Make'' \<in> set (columns df)"
    by (simp add: get_diverse_alternatives_def split: if_splits)
  have inv: "length slots \<le> 3 \<and> distinct (map slot_make slots) \<and> m \<notin> set (map slot_make slots) \<and>
         sorted_wrt (<) (map slot_rank slots) \<and> list_all (\<lambda>a. fst (snd a) \<in> set (rows df)) slots"
    using slots_def by (rule strategies_invariant)
  from r mk have "alts = take 3 slots"
    by (simp add: get_diverse_alternatives_def Let_def slots_def m_def)
  moreover from inv have "length slots \<le> 3" by blast
  ultimately have eq: "alts = slots" by simp
  from inv show "length alts \<le> 3" unfolding eq by blast
  from inv show "distinct (map slot_make alts)" unfolding eq by blast
  from inv show "Make top_v \<notin> set (map slot_make alts)" unfolding eq m_def by blast
  from inv show "sorted_wrt (<) (map slot_rank alts)" unfolding eq by blast
  from inv show "list_all (\<lambda>a. fst (snd a) \<in> set (rows df)) alts" unfolding eq by blast
  { assume "not_isin [Make top_v] (rows df) = []"
    then have "slots = []" unfolding slots_def m_def by (rule strategies_empty_pool)
    then show "alts = []" using eq by simp }
qed

theorem diverse_alternatives_distinct_brands_witness:
  "''Make'' \<in> set (columns scored_five) \<and>
   map slot_make (projr (get_diverse_alternatives scored_five (hd (rows scored_five)))) =
     [Some ''NISSAN'', Some ''KIA'', Some ''CHEVROLET''] \<and>
   (\<exists>alts. get_diverse_alternatives scored_five (hd (rows scored_five)) = Inr alts \<and>
       length alts \<le> 3 \<and> distinct (map slot_make alts) \<and>
       Make (hd (rows scored_five)) \<notin> set (map slot_make alts) \<and>
       sorted_wrt (<) (map slot_rank alts))"
proof -
  have c: "''Make'' \<in> set (columns scored_five)"
    by code_simp
  have e: "map slot_make (projr (get_diverse_alternatives scored_five (hd (rows scored_five)))) =
     [Some ''NISSAN'', Some ''KIA'', Some ''CHEVROLET'']"
    by code_simp
  from diverse_alternatives_distinct_brands [of scored_five "hd (rows scored_five)"] c
  obtain alts where a: "get_diverse_alternatives scored_five (hd (rows scored_five)) = Inr alts"
    by blast
  with diverse_alternatives_distinct_brands [of scored_five "hd (rows scored_five)" alts]
  have "length alts \<le> 3 \<and> distinct (map slot_make alts) \<and>
       Make (hd (rows scored_five)) \<notin> set (map slot_make alts) \<and>
       sorted_wrt (<) (map slot_rank alts)" by blast
  with a c e show ?thesis by blast
qed

text \<open>
  C1: the slot titled \<^verbatim>\<open>Longest Range\<close> is chosen with \<^verbatim>\<open>nsmallest\<close>, so it
  holds the shortest range among the brands not yet used. On five cars, with Tesla
  the top match and Nissan the most affordable, the slot is the Kia (240 miles)
  although the Ford (310 miles) and the Chevrolet (250 miles) are still available.
\<close>

theorem longest_range_slot_holds_shortest_range:
  "slots (display_recommendations insertion_argsort five_cars ''Regular road trips (> 200 mi)''
            ''No preference'' ''Moderate (occasional trips)'' ''quick'' None None) =
     Inr (Some [(Most_Affordable, Some ''NISSAN'', Some 150),
                (Longest_Range, Some ''KIA'', Some 240),
                (Best_Value, Some ''CHEVROLET'', Some 250)]) \<and>
   Electric_Range ford = Some 310 \<and> Make ford = Some ''FORD''"
  by code_simp

text \<open>
  The same slots come out of the quick match, where all five cars pass the budget
  and range filters.
\<close>

lemma longest_range_slot_on_quick_match:
  "slots (quick_match insertion_argsort five_cars ''Daily commuting (< 50 mi/day)''
            ''No preference'' ''Moderate (occasional trips)'') =
     Inr (Some [(Most_Affordable, Some ''NISSAN'', Some 150),
                (Longest_Range, Some ''KIA'', Some 240),
                (Best_Value, Some ''CHEVROLET'', Some 250)])"
  by code_simp

subsection \<open>The scoring statements in closed form\<close>

lemma add_col_mem: "x \<in> set (add_col name cols) \<longleftrightarrow> x = name \<or> x \<in> set cols"
  by (auto simp: add_col_def)

lemma assign_simps:
  "columns (assign name cell f) = add_col name (columns f)"
  "rows (assign name cell f) = map (cell f) (rows f)"
  by (simp_all add: assign_def)

lemma col_norm_cong:
  assumes "col \<in> set (columns f') \<longleftrightarrow> col \<in> set (columns f)"
    and "map field (rows f') = map field (rows f)" and "field r' = field r"
  shows "col_norm f' col field r' = col_norm f col field r"
  unfolding col_norm_def assms ..

lemma col_norm_upd:
  "col_norm f c Base_MSRP (Electric_Range_norm_update g r) = col_norm f c Base_MSRP r"
  "col_norm f c Model_Year (Electric_Range_norm_update g r) = col_norm f c Model_Year r"
  "col_norm f c Model_Year (Base_MSRP_norm_update g r) = col_norm f c Model_Year r"
  by (rule col_norm_cong; simp)+

lemma normalize_scores_rows:
  "rows (normalize_scores df) = map (norm_row df) (rows df)"
proof -
  define f1 where "f1 = assign ''Electric Range_norm''
                 (\<lambda>f r. r\<lparr>Electric_Range_norm := col_norm f ''Electric Range'' Electric_Range r\<rparr>) df"
  define f2 where "f2 = assign ''Base MSRP_norm''
                 (\<lambda>f r. r\<lparr>Base_MSRP_norm := col_norm f ''Base MSRP'' Base_MSRP r\<rparr>) f1"
  have c1: "col_norm f1 ''Base MSRP'' Base_MSRP r = col_norm df ''Base MSRP'' Base_MSRP r" for r
    by (rule col_norm_cong) (simp_all add: f1_def assign_simps add_col_mem comp_def)
  have c2: "col_norm f2 ''Model Year'' Model_Year r = col_norm df ''Model Year'' Model_Year r" for r
    by (rule col_norm_cong) (simp_all add: f2_def f1_def assign_simps add_col_mem comp_def)
  have r2: "rows f2 = map (\<lambda>r. r\<lparr>Electric_Range_norm := col_norm df ''Electric Range'' Electric_Range r,
       Base_MSRP_norm := col_norm df ''Base MSRP'' Base_MSRP r\<rparr>) (rows df)"
    unfolding f2_def assign_simps c1 by (simp add: f1_def assign_simps comp_def col_norm_upd)
  have "rows (normalize_scores df) =
     map (\<lambda>r. r\<lparr>Model_Year_norm := col_norm f2 ''Model Year'' Model_Year r,
                range_score := Electric_Range_norm r,
                price_score := nan_sub (Some 1) (Base_MSRP_norm r),
                newness_score := col_norm f2 ''Model Year'' Model_Year r\<rparr>) (rows f2)"
    by (simp add: normalize_scores_def Let_def assign_simps comp_def f1_def [symmetric] f2_def [symmetric])
  also have "\<dots> = map (norm_row df) (rows df)"
    unfolding c2 by (simp add: r2 comp_def norm_row_def col_norm_upd)
  finally show ?thesis .
qed

lemma normalize_scores_columns:
  "columns (normalize_scores df) =
     fold add_col [''Electric Range_norm'', ''Base MSRP_norm'', ''Model Year_norm'',
                             ''range_score'', ''price_score'', ''newness_score''] (columns df)"
  by (simp add: normalize_scores_def Let_def assign_simps)

lemma value_raw_of_norm_row: "value_raw_of (norm_row df r) = value_raw_of r"
  by (simp add: value_raw_of_def norm_row_def)

lemma normalize_scores_mem:
  "''Electric Range'' \<in> set (columns (normalize_scores df)) \<longleftrightarrow> ''Electric Range'' \<in> set (columns df)"
  "''Base MSRP'' \<in> set (columns (normalize_scores df)) \<longleftrightarrow> ''Base MSRP'' \<in> set (columns df)"
  "cafv_column \<in> set (columns (normalize_scores df)) \<longleftrightarrow> cafv_column \<in> set (columns df)"
  by (simp_all add: normalize_scores_columns add_col_mem cafv_column_def)

lemma value_scores_rows_absent:
  assumes "''Electric Range'' \<notin> set (columns df) \<or> ''Base MSRP'' \<notin> set (columns df)"
  shows "rows (value_scores (normalize_scores df)) = map (\<lambda>r. value_row df (norm_row df r)) (rows df)"
proof -
  from assms have n: "\<not> (''Electric Range'' \<in> set (columns df) \<and> ''Base MSRP'' \<in> set (columns df))"
    by blast
  have vs: "value_score_of df r = Some (1/2)" for r
    unfolding value_score_of_def using n by (rule if_not_P)
  have vr: "value_row df r = r\<lparr>value_score := Some (1/2)\<rparr>" for r
    unfolding value_row_def vs if_not_P [OF n] by simp
  have "value_scores (normalize_scores df) =
      assign ''value_score'' (\<lambda>f r. r\<lparr>value_score := Some (1/2)\<rparr>) (normalize_scores df)"
    unfolding value_scores_def normalize_scores_mem using n by (rule if_not_P)
  then show ?thesis
    by (simp add: assign_simps normalize_scores_rows comp_def vr)
qed

lemma value_scores_rows_present:
  assumes t: "''Electric Range'' \<in> set (columns df) \<and> ''Base MSRP'' \<in> set (columns df)"
  shows "rows (value_scores (normalize_scores df)) = map (\<lambda>r. value_row df (norm_row df r)) (rows df)"
proof -
  define f1 where "f1 = assign ''value_raw'' (\<lambda>f r. r\<lparr>value_raw := value_raw_of r\<rparr>) (normalize_scores df)"
  have raws: "map value_raw (rows f1) = map value_raw_of (rows df)"
    by (simp add: f1_def assign_simps normalize_scores_rows comp_def value_raw_of_norm_row)
  have vs: "value_score_of df r = value_score_cell (map value_raw_of (rows df)) (value_raw_of r)" for r
    unfolding value_score_of_def using t by (rule if_P)
  have vr: "value_row df r = r\<lparr>value_raw := value_raw_of r,
              value_score := value_score_cell (map value_raw_of (rows df)) (value_raw_of r)\<rparr>" for r
    unfolding value_row_def vs if_P [OF t] by simp
  have "value_scores (normalize_scores df) =
      (let f1 = assign ''value_raw'' (\<lambda>f r. r\<lparr>value_raw := value_raw_of r\<rparr>) (normalize_scores df)
         in assign ''value_score''
              (\<lambda>f r. r\<lparr>value_score := value_score_cell (map value_raw (rows f)) (value_raw r)\<rparr>) f1)"
    unfolding value_scores_def normalize_scores_mem using t by (rule if_P)
  then have "rows (value_scores (normalize_scores df)) =
      map (\<lambda>r. r\<lparr>value_score := value_score_cell (map value_raw_of (rows df)) (value_raw r)\<rparr>) (rows f1)"
    by (simp add: Let_def f1_def [symmetric] assign_simps raws)
  also have "\<dots> = map (\<lambda>r. value_row df (norm_row df r)) (rows df)"
    by (simp add: f1_def assign_simps normalize_scores_rows comp_def vr value_raw_of_norm_row)
  finally show ?thesis .
qed

lemma value_scores_rows:
  "rows (value_scores (normalize_scores df)) = map (\<lambda>r. value_row df (norm_row df r)) (rows df)"
  using value_scores_rows_absent value_scores_rows_present by blast

lemma value_scores_columns:
  "columns (value_scores (normalize_scores df)) =
     add_col ''value_score''
       (if ''Electric Range'' \<in> set (columns df) \<and> ''Base MSRP'' \<in> set (columns df)
        then add_col ''value_raw'' (columns (normalize_scores df)) else columns (normalize_scores df))"
  by (simp add: value_scores_def normalize_scores_mem assign_simps Let_def)

lemma cafv_bonus_of_cong:
  "(cafv_column \<in> set (columns f') \<longleftrightarrow> cafv_column \<in> set (columns f)) \<Longrightarrow>
   CAFV_Eligibility r' = CAFV_Eligibility r \<Longrightarrow>
   cafv_bonus_of f' p r' = cafv_bonus_of f p r"
  by (simp add: cafv_bonus_of_def)

lemma value_scores_cafv_mem:
  "cafv_column \<in> set (columns (value_scores (normalize_scores df))) \<longleftrightarrow> cafv_column \<in> set (columns df)"
  by (simp add: value_scores_columns add_col_mem normalize_scores_mem)
     (simp add: cafv_column_def)

lemma score_row_steps:
  "score_row df w p r =
     (let r2 = (value_row df (norm_row df r))\<lparr>cafv_bonus := cafv_bonus_of df p r\<rparr>
      in r2\<lparr>composite_score := composite_of w (price_score r2) (range_score r2) (value_score r2)
                     (newness_score r2) (cafv_bonus r2)\<rparr>)"
proof -
  have v: "value_score_of df (norm_row df r) = value_score_of df r"
    by (simp add: value_score_of_def value_raw_of_norm_row)
  show ?thesis
    by (cases r) (simp add: score_row_def Let_def value_row_def norm_row_def v value_raw_of_def
        value_score_of_def)
qed


lemma cafv_bonus_of_scored:
  "cafv_bonus_of (value_scores (normalize_scores df)) p (value_row df (norm_row df r)) =
   cafv_bonus_of df p r"
proof (rule cafv_bonus_of_cong)
  show "cafv_column \<in> set (columns (value_scores (normalize_scores df))) \<longleftrightarrow> cafv_column \<in> set (columns df)"
    by (rule value_scores_cafv_mem)
  show "CAFV_Eligibility (value_row df (norm_row df r)) = CAFV_Eligibility r"
    by (cases r) (simp add: value_row_def norm_row_def)
qed

lemma score_frame_rows:
  "rows (score_frame df w cafv_pref) = map (score_row df w cafv_pref) (rows df)"
proof -
  have "rows (score_frame df w cafv_pref) =
      map (\<lambda>r. r\<lparr>composite_score :=
                   composite_of w (price_score r) (range_score r) (value_score r)
                     (newness_score r) (cafv_bonus r)\<rparr>)
        (map (\<lambda>r. r\<lparr>cafv_bonus := cafv_bonus_of (value_scores (normalize_scores df)) cafv_pref r\<rparr>)
           (rows (value_scores (normalize_scores df))))"
    by (simp only: score_frame_def composite_scores_def cafv_bonuses_def assign_simps)
  also have "\<dots> = map (\<lambda>r. let r2 = (value_row df (norm_row df r))\<lparr>cafv_bonus := cafv_bonus_of df cafv_pref r\<rparr>
      in r2\<lparr>composite_score := composite_of w (price_score r2) (range_score r2) (value_score r2)
                     (newness_score r2) (cafv_bonus r2)\<rparr>) (rows df)"
    by (simp only: value_scores_rows map_map comp_def cafv_bonus_of_scored Let_def)
  also have "\<dots> = map (score_row df w cafv_pref) (rows df)"
    by (rule map_cong) (simp_all only: score_row_steps)
  finally show ?thesis .
qed

lemma score_frame_columns:
  "columns (score_frame df w cafv_pref) = score_columns (columns df)"
  by (simp add: score_frame_def composite_scores_def cafv_bonuses_def assign_simps
      value_scores_columns normalize_scores_columns score_columns_def Let_def)

lemma score_frame_closed_form:
  "score_frame df w cafv_pref =
     \<lparr>columns = score_columns (columns df), rows = map (score_row df w cafv_pref) (rows df)\<rparr>"
  by (rule frame.equality) (simp_all add: score_frame_rows score_frame_columns)

subsection \<open>Score normalizer\<close>

lemma set_dropna: "set (dropna cs) = {x. Some x \<in> set cs}"
  by (induction cs rule: dropna.induct) auto

lemma fold_min_Min: "fold min xs (x::rat) = Min (set (x # xs))"
  by (simp only: Min.set_eq_fold)

lemma fold_max_Max: "fold max xs (x::rat) = Max (set (x # xs))"
  by (simp only: Max.set_eq_fold)

lemma series_min_None: "series_min cs = None \<longleftrightarrow> dropna cs = []"
  by (simp add: series_min_def split: list.splits)

lemma series_max_None: "series_max cs = None \<longleftrightarrow> dropna cs = []"
  by (simp add: series_max_def split: list.splits)

lemma series_min_Some:
  assumes "series_min cs = Some m"
  shows "Some m \<in> set cs \<and> (\<forall>x. Some x \<in> set cs \<longrightarrow> m \<le> x)"
proof -
  from assms obtain y ys where d: "dropna cs = y # ys" and m: "m = fold min ys y"
    by (auto simp: series_min_def split: list.splits)
  have mm: "m = Min (set (dropna cs))" using d m by (simp only: fold_min_Min)
  have ne: "set (dropna cs) \<noteq> {}" using d by simp
  have "m \<in> set (dropna cs)" unfolding mm using ne by (intro Min_in) simp_all
  moreover have "\<forall>x \<in> set (dropna cs). m \<le> x" unfolding mm by simp
  ultimately show ?thesis by (simp add: set_dropna)
qed

lemma series_max_Some:
  assumes "series_max cs = Some m"
  shows "Some m \<in> set cs \<and> (\<forall>x. Some x \<in> set cs \<longrightarrow> x \<le> m)"
proof -
  from assms obtain y ys where d: "dropna cs = y # ys" and m: "m = fold max ys y"
    by (auto simp: series_max_def split: list.splits)
  have mm: "m = Max (set (dropna cs))" using d m by (simp only: fold_max_Max)
  have ne: "set (dropna cs) \<noteq> {}" using d by simp
  have "m \<in> set (dropna cs)" unfolding mm using ne by (intro Max_in) simp_all
  moreover have "\<forall>x \<in> set (dropna cs). x \<le> m" unfolding mm by simp
  ultimately show ?thesis by (simp add: set_dropna)
qed

lemma series_extrema_known:
  assumes "Some a \<in> set cs"
  shows "\<exists>mn mx. series_min cs = Some mn \<and> series_max cs = Some mx \<and> mn \<le> a \<and> a \<le> mx"
proof -
  from assms have "a \<in> set (dropna cs)" by (simp add: set_dropna)
  then have ne: "dropna cs \<noteq> []" by auto
  then obtain mn where mn: "series_min cs = Some mn"
    using series_min_None [of cs] by (cases "series_min cs") auto
  from ne obtain mx where mx: "series_max cs = Some mx"
    using series_max_None [of cs] by (cases "series_max cs") auto
  from series_min_Some [OF mn] series_max_Some [OF mx] assms mn mx show ?thesis by blast
qed

lemma constant_extrema:
  assumes "constant_or_missing cs"
  shows "series_min cs = series_max cs"
proof (cases "dropna cs")
  case Nil
  then show ?thesis by (simp add: series_min_def series_max_def)
next
  case (Cons x xs)
  with assms have all: "list_all (\<lambda>y. y = x) xs" by (simp add: constant_or_missing_def)
  then have eq: "set (x # xs) = {x}" by (auto simp: list_all_iff)
  have "Min (set (x # xs)) = x" "Max (set (x # xs)) = x" unfolding eq by simp_all
  then have "fold min xs x = x" "fold max xs x = x" by (simp_all only: fold_min_Min fold_max_Max)
  with Cons show ?thesis by (simp add: series_min_def series_max_def)
qed

lemma col_norm_absent: "col \<notin> set (columns df) \<Longrightarrow> col_norm df col field r = Some (1/2)"
  by (simp add: col_norm_def)

lemma col_norm_constant:
  "constant_or_missing (map field (rows df)) \<Longrightarrow> col_norm df col field r = Some (1/2)"
  using constant_extrema [of "map field (rows df)"]
  by (auto simp: col_norm_def split: option.splits)

lemma value_score_constant:
  "constant_or_missing (map value_raw_of (rows df)) \<Longrightarrow> value_score_of df r = Some (1/2)"
  using constant_extrema [of "map value_raw_of (rows df)"]
  by (auto simp: value_score_of_def value_score_cell_def split: option.splits)

lemma value_score_absent:
  "''Electric Range'' \<notin> set (columns df) \<or> ''Base MSRP'' \<notin> set (columns df) \<Longrightarrow> value_score_of df r = Some (1/2)"
  by (auto simp: value_score_of_def)

lemma all_missing_constant:
  "list_all (\<lambda>c. c = None) cs \<Longrightarrow> constant_or_missing cs"
proof -
  assume "list_all (\<lambda>c. c = None) cs"
  then have "set (dropna cs) = {}" by (auto simp: set_dropna list_all_iff)
  then show ?thesis by (simp add: constant_or_missing_def)
qed

lemma score_row_fields:
  "range_score (score_row df w p r) = col_norm df ''Electric Range'' Electric_Range r"
  "price_score (score_row df w p r) = nan_sub (Some 1) (col_norm df ''Base MSRP'' Base_MSRP r)"
  "newness_score (score_row df w p r) = col_norm df ''Model Year'' Model_Year r"
  "value_score (score_row df w p r) = value_score_of df r"
  "Electric_Range_norm (score_row df w p r) = col_norm df ''Electric Range'' Electric_Range r"
  "Base_MSRP_norm (score_row df w p r) = col_norm df ''Base MSRP'' Base_MSRP r"
  "Model_Year_norm (score_row df w p r) = col_norm df ''Model Year'' Model_Year r"
  "cafv_bonus (score_row df w p r) = cafv_bonus_of df p r"
  "composite_score (score_row df w p r) =
     composite_of w (nan_sub (Some 1) (col_norm df ''Base MSRP'' Base_MSRP r))
       (col_norm df ''Electric Range'' Electric_Range r) (value_score_of df r)
       (col_norm df ''Model Year'' Model_Year r) (cafv_bonus_of df p r)"
  by (simp_all add: score_row_def Let_def)

lemma half: "nan_sub (Some 1) (Some (1/2)) = Some (1/2)"
  by (simp add: nan_sub_def nan_lift2_def)

text \<open>
  C5: in a candidate set whose range, price or year column is absent, entirely
  missing or constant over its known values, every candidate has exactly 0.5 as its
  range score, price score or newness score; the value score is 0.5 for every
  candidate when one of its two columns is absent or the raw ratios are constant or
  all missing; a price column with no known value gives every row the price score
  0.5 and the value score 0.5.
\<close>

theorem degenerate_dimension_scores_half:
  assumes "s \<in> set (rows (score_frame df w cafv_pref))"
  shows "(''Electric Range'' \<notin> set (columns df) \<or> constant_or_missing (map Electric_Range (rows df))
            \<longrightarrow> range_score s = Some (1/2)) \<and>
         (''Base MSRP'' \<notin> set (columns df) \<or> constant_or_missing (map Base_MSRP (rows df))
            \<longrightarrow> price_score s = Some (1/2)) \<and>
         (''Model Year'' \<notin> set (columns df) \<or> constant_or_missing (map Model_Year (rows df))
            \<longrightarrow> newness_score s = Some (1/2)) \<and>
         (''Electric Range'' \<notin> set (columns df) \<or> ''Base MSRP'' \<notin> set (columns df) \<or>
          (prices_ok df \<and> constant_or_missing (map value_raw_of (rows df)))
            \<longrightarrow> value_score s = Some (1/2)) \<and>
         (list_all (\<lambda>r. Base_MSRP r = None) (rows df)
            \<longrightarrow> price_score s = Some (1/2) \<and> value_score s = Some (1/2))"
proof -
  from assms obtain r where s: "s = score_row df w cafv_pref r"
    by (auto simp: score_frame_rows)
  have rng: "''Electric Range'' \<notin> set (columns df) \<or> constant_or_missing (map Electric_Range (rows df))
            \<longrightarrow> range_score s = Some (1/2)"
    unfolding s score_row_fields using col_norm_absent col_norm_constant by blast
  have prc: "''Base MSRP'' \<notin> set (columns df) \<or> constant_or_missing (map Base_MSRP (rows df))
            \<longrightarrow> price_score s = Some (1/2)"
    unfolding s score_row_fields using col_norm_absent col_norm_constant half by metis
  have yr: "''Model Year'' \<notin> set (columns df) \<or> constant_or_missing (map Model_Year (rows df))
            \<longrightarrow> newness_score s = Some (1/2)"
    unfolding s score_row_fields using col_norm_absent col_norm_constant by blast
  have vl: "''Electric Range'' \<notin> set (columns df) \<or> ''Base MSRP'' \<notin> set (columns df) \<or>
          (prices_ok df \<and> constant_or_missing (map value_raw_of (rows df)))
            \<longrightarrow> value_score s = Some (1/2)"
    unfolding s score_row_fields using value_score_absent value_score_constant by blast
  have emp: "list_all (\<lambda>r. Base_MSRP r = None) (rows df)
            \<longrightarrow> price_score s = Some (1/2) \<and> value_score s = Some (1/2)"
  proof
    assume a: "list_all (\<lambda>r. Base_MSRP r = None) (rows df)"
    then have "list_all (\<lambda>c. c = None) (map Base_MSRP (rows df))"
      by (simp add: list_all_iff)
    then have p: "constant_or_missing (map Base_MSRP (rows df))" by (rule all_missing_constant)
    from a have "list_all (\<lambda>c. c = None) (map value_raw_of (rows df))"
      by (simp add: list_all_iff value_raw_of_def nan_div_def nan_add_def nan_lift2_def split: option.splits)
    then have v: "constant_or_missing (map value_raw_of (rows df))" by (rule all_missing_constant)
    from p have "price_score s = Some (1/2)"
      unfolding s score_row_fields using col_norm_constant half by metis
    moreover from v have "value_score s = Some (1/2)"
      unfolding s score_row_fields by (rule value_score_constant)
    ultimately show "price_score s = Some (1/2) \<and> value_score s = Some (1/2)" ..
  qed
  from rng prc yr vl emp show ?thesis by blast
qed

theorem degenerate_dimension_scores_half_witness:
  "list_all (\<lambda>r. Base_MSRP r = None) (rows no_price_frame) \<and>
   score_row no_price_frame default_weights None unpriced \<in> set (rows (score_frame no_price_frame default_weights None)) \<and>
   price_score (score_row no_price_frame default_weights None unpriced) = Some (1/2) \<and>
   value_score (score_row no_price_frame default_weights None unpriced) = Some (1/2) \<and>
   range_score (score_row no_price_frame default_weights None unpriced) = Some 1"
proof -
  have m: "list_all (\<lambda>r. Base_MSRP r = None) (rows no_price_frame)"
    by (simp add: no_price_frame_def unpriced_def unpriced_bmw_def car_def)
  have s: "score_row no_price_frame default_weights None unpriced
             \<in> set (rows (score_frame no_price_frame default_weights None))"
    by (simp add: score_frame_rows no_price_frame_def)
  have r: "range_score (score_row no_price_frame default_weights None unpriced) = Some 1"
    by code_simp
  from degenerate_dimension_scores_half [OF s] m s r show ?thesis by blast
qed



subsection \<open>Missing cells and the ranking\<close>

lemma insertion_argsort_ok: "argsort_ok insertion_argsort"
  by (simp add: argsort_ok_def insertion_argsort_def)

lemma length_dropna: "length (dropna cs) = length (filter (\<lambda>c. c \<noteq> None) cs)"
  by (induction cs rule: dropna.induct) auto

lemma filter_positions:
  "map ((!) cs) (filter (\<lambda>k. P (cs ! k)) [0..<length cs]) = filter P cs"
proof -
  have "filter P cs = filter P (map ((!) cs) [0..<length cs])" by (simp add: map_nth)
  also have "\<dots> = map ((!) cs) (filter (P \<circ> (!) cs) [0..<length cs])" by (simp only: filter_map)
  finally show ?thesis by (simp add: comp_def)
qed

lemma length_known_positions:
  "length (filter (\<lambda>k. cs ! k \<noteq> None) [0..<length cs]) = length (dropna cs)"
proof -
  have "length (filter (\<lambda>k. cs ! k \<noteq> None) [0..<length cs]) =
        length (map ((!) cs) (filter (\<lambda>k. cs ! k \<noteq> None) [0..<length cs]))" by simp
  also have "\<dots> = length (filter (\<lambda>c. c \<noteq> None) cs)"
    using filter_positions [of cs "\<lambda>c. c \<noteq> None"] by simp
  finally show ?thesis by (simp add: length_dropna)
qed

lemma set_map_nth_perm:
  assumes "set p = {0..<length l}"
  shows "set (map (\<lambda>k. l ! k) p) = set l"
proof -
  have "set (map (\<lambda>k. l ! k) p) = (!) l ` {0..<length l}" using assms by simp
  also have "\<dots> = set l" using nth_image [of "length l" l] by simp
  finally show ?thesis .
qed

lemma nargsort_desc_nan_last:
  assumes ok: "argsort_ok argsort"
    and i: "i < length items" "items ! i = None"
    and j: "j < length items" "items ! j \<noteq> None"
  shows "precedes (nargsort_desc argsort items) j i"
proof -
  define nn_idx where "nn_idx = rev (filter (\<lambda>k. items ! k \<noteq> None) [0..<length items])"
  define nan_idx where "nan_idx = filter (\<lambda>k. items ! k = None) [0..<length items]"
  define non_nans where "non_nans = rev (dropna items)"
  define indexer where "indexer = rev (map (\<lambda>k. nn_idx ! k) (argsort non_nans))"
  have res: "nargsort_desc argsort items = indexer @ nan_idx"
    by (simp add: nargsort_desc_def Let_def indexer_def nan_idx_def nn_idx_def non_nans_def)
  have len: "length non_nans = length nn_idx"
    by (simp only: non_nans_def nn_idx_def length_rev length_known_positions)
  from ok have "set (argsort non_nans) = {0..<length non_nans}"
    by (simp add: argsort_ok_def)
  then have "set (argsort non_nans) = {0..<length nn_idx}" by (simp only: len)
  then have "set (map (\<lambda>k. nn_idx ! k) (argsort non_nans)) = set nn_idx"
    by (rule set_map_nth_perm)
  then have si: "set indexer = set nn_idx" by (simp add: indexer_def)
  from j have "j \<in> set nn_idx" by (simp add: nn_idx_def)
  with si have "j \<in> set indexer" by simp
  then obtain a where a: "a < length indexer" "indexer ! a = j"
    by (auto simp: in_set_conv_nth)
  from i have "i \<in> set nan_idx" by (simp add: nan_idx_def)
  then obtain b where b: "b < length nan_idx" "nan_idx ! b = i"
    by (auto simp: in_set_conv_nth)
  have "a < length indexer + b" using a by simp
  moreover have "length indexer + b < length (indexer @ nan_idx)" using b by simp
  moreover have "(indexer @ nan_idx) ! a = j" using a by (simp add: nth_append)
  moreover have "(indexer @ nan_idx) ! (length indexer + b) = i" using b by (simp add: nth_append)
  ultimately show ?thesis unfolding res precedes_def by blast
qed

lemma nan_lift2_None [simp]: "nan_lift2 f None b = None" "nan_lift2 f a None = None"
  by (simp_all add: nan_lift2_def split: option.splits)

lemma composite_of_None:
  "ps = None \<or> rs = None \<or> vs = None \<or> ns = None \<or> cb = None \<Longrightarrow> composite_of w ps rs vs ns cb = None"
  by (auto simp: composite_of_def nan_add_def nan_mul_def)

lemma col_norm_missing_cell:
  assumes col: "col \<in> set (columns df)"
    and a: "Some a \<in> set (map field (rows df))" and b: "Some b \<in> set (map field (rows df))"
    and ne: "a \<noteq> b" and r: "field r = None"
  shows "col_norm df col field r = None"
proof -
  from series_extrema_known [OF a] obtain mn mx where
    mn: "series_min (map field (rows df)) = Some mn" and mx: "series_max (map field (rows df)) = Some mx"
    and "mn \<le> a" "a \<le> mx" by blast
  from series_min_Some [OF mn] b have "mn \<le> b" by blast
  from series_max_Some [OF mx] b have "b \<le> mx" by blast
  have "mn \<noteq> mx"
  proof
    assume "mn = mx"
    with \<open>mn \<le> a\<close> \<open>a \<le> mx\<close> \<open>mn \<le> b\<close> \<open>b \<le> mx\<close> have "a = b" by simp
    with ne show False ..
  qed
  with col mn mx r show ?thesis
    by (simp add: col_norm_def nan_div_def nan_sub_def)
qed

text \<open>
  C10: when a normalized column has two distinct known values, a candidate whose own
  cell in it is missing gets a missing (NaN) normalized value, a missing score for
  that dimension and a missing composite score, and the ranking lists it after every
  candidate whose composite score is defined. This holds for every sort that meets
  \<open>argsort_ok\<close>; prices of \<open>-1\<close> are excluded because the composite scores of
  the other candidates depend on the value score.
\<close>

theorem missing_cell_ranked_last:
  assumes ok: "argsort_ok argsort" and pk: "prices_ok df"
    and nc: "(col, field, nrm, score) \<in> set norm_columns"
    and col: "col \<in> set (columns df)"
    and a: "Some a \<in> set (map field (rows df))" and b: "Some b \<in> set (map field (rows df))"
    and ne: "a \<noteq> b"
    and i: "i < length (rows df)" and mi: "field (rows df ! i) = None"
    and j: "j < length (rows df)"
    and dj: "composite_score (rows (score_frame df w cafv_pref) ! j) \<noteq> None"
  shows "nrm (rows (score_frame df w cafv_pref) ! i) = None \<and>
         score (rows (score_frame df w cafv_pref) ! i) = None \<and>
         composite_score (rows (score_frame df w cafv_pref) ! i) = None \<and>
         precedes (sort_values_desc argsort (score_frame df w cafv_pref)) j i"
proof -
  let ?r = "rows df ! i"
  let ?s = "score_row df w cafv_pref ?r"
  have si: "rows (score_frame df w cafv_pref) ! i = ?s" using i by (simp add: score_frame_rows)
  have cn: "col_norm df col field ?r = None"
    using col a b ne mi by (rule col_norm_missing_cell)
  from nc have ns: "nrm ?s = None \<and> score ?s = None \<and> composite_score ?s = None"
  proof (simp add: norm_columns_def, elim disjE conjE)
    assume "col = ''Electric Range''" "field = Electric_Range" "nrm = Electric_Range_norm" "score = range_score"
    with cn show ?thesis by (simp add: score_row_fields composite_of_None)
  next
    assume "col = ''Base MSRP''" "field = Base_MSRP" "nrm = Base_MSRP_norm" "score = price_score"
    with cn show ?thesis by (simp add: score_row_fields composite_of_None nan_sub_def)
  next
    assume "col = ''Model Year''" "field = Model_Year" "nrm = Model_Year_norm" "score = newness_score"
    with cn show ?thesis by (simp add: score_row_fields composite_of_None)
  qed
  let ?items = "map composite_score (rows (score_frame df w cafv_pref))"
  have li: "i < length ?items" and lj: "j < length ?items" using i j by (simp_all add: score_frame_rows)
  have ii: "?items ! i = None" using ns si li by simp
  have jj: "?items ! j \<noteq> None" using dj lj by simp
  have "precedes (nargsort_desc argsort ?items) j i"
    using ok li ii lj jj by (rule nargsort_desc_nan_last)
  with ns si show ?thesis by (simp add: sort_values_desc_def)
qed

theorem missing_cell_ranked_last_witness:
  "argsort_ok insertion_argsort \<and> prices_ok partial_frame \<and>
   Electric_Range (rows partial_frame ! 1) = None \<and>
   composite_score (rows (score_frame partial_frame default_weights None) ! 0) = Some (11/15) \<and>
   range_score (rows (score_frame partial_frame default_weights None) ! 1) = None \<and>
   composite_score (rows (score_frame partial_frame default_weights None) ! 1) = None \<and>
   precedes (sort_values_desc insertion_argsort (score_frame partial_frame default_weights None)) 0 1 \<and>
   sort_values_desc insertion_argsort (score_frame partial_frame default_weights None) = [0, 2, 1]"
proof -
  have nc: "(''Electric Range'', Electric_Range, Electric_Range_norm, range_score) \<in> set norm_columns"
    by (simp add: norm_columns_def)
  have col: "''Electric Range'' \<in> set (columns partial_frame)"
    by (simp add: partial_frame_def data_columns_def)
  have a: "Some 300 \<in> set (map Electric_Range (rows partial_frame))"
    by (simp add: partial_frame_def tesla_def car_def)
  have b: "Some 150 \<in> set (map Electric_Range (rows partial_frame))"
    by (simp add: partial_frame_def nissan_def car_def)
  have ne: "(300::rat) \<noteq> 150" by simp
  have i: "1 < length (rows partial_frame)" and j: "0 < length (rows partial_frame)"
    by (simp_all add: partial_frame_def)
  have mi: "Electric_Range (rows partial_frame ! 1) = None"
    by (simp add: partial_frame_def no_range_car_def car_def)
  have cj: "composite_score (rows (score_frame partial_frame default_weights None) ! 0) = Some (11/15)"
    by code_simp
  then have dj: "composite_score (rows (score_frame partial_frame default_weights None) ! 0) \<noteq> None"
    by simp
  have ix: "sort_values_desc insertion_argsort (score_frame partial_frame default_weights None) = [0, 2, 1]"
    by code_simp
  have pk: "prices_ok partial_frame"
    by (simp add: prices_ok_def partial_frame_def tesla_def nissan_def no_range_car_def car_def)
  from missing_cell_ranked_last [OF insertion_argsort_ok pk nc col a b ne i mi j dj]
    insertion_argsort_ok pk mi cj ix
  show ?thesis by blast
qed

subsection \<open>Absent columns\<close>

lemma length_nargsort_desc:
  assumes "argsort_ok argsort"
  shows "length (nargsort_desc argsort items) = length items"
proof -
  have a: "length (argsort (rev (dropna items))) = length (dropna items)"
    using assms by (simp add: argsort_ok_def)
  have "length (filter (\<lambda>k. items ! k \<noteq> None) [0..<length items]) +
        length (filter (\<lambda>k. items ! k = None) [0..<length items]) = length [0..<length items]"
    using sum_length_filter_compl [of "\<lambda>k. items ! k \<noteq> None" "[0..<length items]"] by simp
  then have "length (dropna items) + length (filter (\<lambda>k. items ! k = None) [0..<length items]) = length items"
    by (simp only: length_known_positions length_upt)
  then show ?thesis by (simp add: nargsort_desc_def Let_def a)
qed

lemma score_columns_mem:
  "c \<in> set (score_columns cols) \<longleftrightarrow>
     c \<in> set cols \<or>
     c \<in> {''Electric Range_norm'', ''Base MSRP_norm'', ''Model Year_norm'', ''range_score'',
          ''price_score'', ''newness_score'', ''value_score'', ''cafv_bonus'', ''composite_score''} \<or>
     (c = ''value_raw'' \<and> ''Electric Range'' \<in> set cols \<and> ''Base MSRP'' \<in> set cols)"
  by (auto simp: score_columns_def Let_def add_col_mem)

text \<open>
  Scoring and ranking handle an absent price column by the 0.5 fallback, but the
  scorer as a whole raises on every non-empty frame without a price column, as soon
  as it renders the top match.
\<close>

lemma absent_price_column_raises:
  assumes ok: "argsort_ok argsort" and np: "''Base MSRP'' \<notin> set (columns df)"
    and ne: "\<not> empty_frame df"
    and w: "select_weights method use_case priorities = Inr w"
  shows "display_recommendations argsort df use_case budget range_need method priorities cafv_pref
           = Inl (KeyError ''Base MSRP'')"
proof -
  define sf where "sf = score_frame df w cafv_pref"
  define ix where "ix = sort_values_desc argsort sf"
  have "length ix = length (rows df)"
    using ok by (simp add: ix_def sf_def sort_values_desc_def length_nargsort_desc score_frame_rows)
  with ne have "rows (take_rows sf ix) \<noteq> []"
    by (auto simp: take_rows_def empty_frame_def)
  then obtain top_row rest where t: "rows (take_rows sf ix) = top_row # rest"
    by (cases "rows (take_rows sf ix)") auto
  have "''Base MSRP'' \<notin> set (columns (take_rows sf ix))"
    using np by (simp add: take_rows_def sf_def score_frame_columns score_columns_mem)
  then have r: "render_top (take_rows sf ix) w top_row = Inl (KeyError ''Base MSRP'')"
    by (simp add: render_top_def)
  show ?thesis
    using ne w t r
    by (simp add: display_recommendations_def Let_def sf_def [symmetric] ix_def [symmetric])
qed

text \<open>
  C3: with the price column absent the scores fall back to 0.5 and the ranking is
  computed, but the quick match then raises \<^verbatim>\<open>KeyError\<close> while rendering the top
  match, before the alternatives are selected; with the price column present and
  entirely missing it raises \<^verbatim>\<open>ValueError\<close> at the same place.
\<close>

theorem absent_price_raises_at_rendering:
  "quick_match insertion_argsort price_column_absent ''Daily commuting (< 50 mi/day)''
      ''No preference'' ''Moderate (occasional trips)'' = Inl (KeyError ''Base MSRP'') \<and>
   quick_match insertion_argsort no_price_frame ''Daily commuting (< 50 mi/day)''
      ''No preference'' ''Moderate (occasional trips)'' = Inl ValueError \<and>
   map price_score (rows (score_frame price_column_absent default_weights None)) =
      [Some (1/2), Some (1/2)] \<and>
   sort_values_desc insertion_argsort (score_frame price_column_absent default_weights None) = [0, 1]"
  by code_simp

subsection \<open>Purity of the scorer\<close>

lemma update_at_fresh: "update_at (length h) g (h @ [f]) = h @ [g f]"
  by (simp add: update_at_def)

lemma call_refines:
  "display_recommendations_call argsort h df use_case budget range_need method priorities cafv_pref =
     (display_recommendations argsort (h ! df) use_case budget range_need method priorities cafv_pref,
      if empty_frame (h ! df) then h
      else (case select_weights method use_case priorities of
              Inl e \<Rightarrow> h @ [cafv_bonuses cafv_pref (value_scores (normalize_scores (h ! df)))]
            | Inr w \<Rightarrow> h @ [score_frame (h ! df) w cafv_pref,
                              take_rows (score_frame (h ! df) w cafv_pref)
                                (sort_values_desc argsort (score_frame (h ! df) w cafv_pref))]))"
proof (cases "empty_frame (h ! df)")
  case True
  then show ?thesis
    by (simp add: display_recommendations_call_def display_recommendations_def)
next
  case False
  show ?thesis
  proof (cases "select_weights method use_case priorities")
    case (Inl e)
    with False show ?thesis
      by (simp add: display_recommendations_call_def display_recommendations_def new_frame_def
          update_at_fresh Let_def)
  next
    case (Inr w)
    define sf where "sf = score_frame (h ! df) w cafv_pref"
    define rk where "rk = take_rows sf (sort_values_desc argsort sf)"
    have h5: "update_at (length h) (composite_scores w)
               (update_at (length h) (cafv_bonuses cafv_pref)
                 (update_at (length h) value_scores
                   (update_at (length h) normalize_scores (h @ [h ! df])))) = h @ [sf]"
      by (simp only: update_at_fresh sf_def score_frame_def)
    have n5: "(h @ [sf]) ! length h = sf" by simp
    have n6: "((h @ [sf]) @ [rk]) ! length (h @ [sf]) = rk" by (simp only: nth_append_length)
    show ?thesis
      unfolding display_recommendations_call_def display_recommendations_def new_frame_def
        Let_def prod.case if_not_P [OF False] Inr sum.case h5 n5 sf_def [symmetric]
        rk_def [symmetric] n6
      by (simp split: list.splits sum.splits)
  qed
qed

text \<open>
  C9: a call of the scorer returns what the pure function \<open>display_recommendations\<close>
  returns on the content of the caller's frame and the profile, whatever else the
  heap holds; it leaves every frame that existed before the call unchanged (it only
  adds the frames it made); and a second call with the same arguments, run on the
  heap the first one left behind, returns the same result.
\<close>

theorem scorer_pure_and_stateless:
  assumes "df < length h"
  shows "fst (display_recommendations_call argsort h df use_case budget range_need method priorities cafv_pref) =
           display_recommendations argsort (h ! df) use_case budget range_need method priorities cafv_pref \<and>
         take (length h)
           (snd (display_recommendations_call argsort h df use_case budget range_need method priorities cafv_pref)) = h \<and>
         fst (display_recommendations_call argsort
               (snd (display_recommendations_call argsort h df use_case budget range_need method priorities cafv_pref))
               df use_case budget range_need method priorities cafv_pref) =
         fst (display_recommendations_call argsort h df use_case budget range_need method priorities cafv_pref)"
proof -
  let ?call = "display_recommendations_call argsort h df use_case budget range_need method priorities cafv_pref"
  have r: "fst ?call = display_recommendations argsort (h ! df) use_case budget range_need method priorities cafv_pref"
    by (simp add: call_refines)
  have "\<exists>new. snd ?call = h @ new"
    by (simp add: call_refines split: sum.splits)
  then obtain new where n: "snd ?call = h @ new" ..
  then have t: "take (length h) (snd ?call) = h" by simp
  from n assms have same: "snd ?call ! df = h ! df" by (simp add: nth_append)
  have "fst (display_recommendations_call argsort (snd ?call) df use_case budget range_need method priorities cafv_pref) =
        display_recommendations argsort (snd ?call ! df) use_case budget range_need method priorities cafv_pref"
    by (simp add: call_refines)
  with same r have "fst (display_recommendations_call argsort (snd ?call) df use_case budget range_need method priorities cafv_pref) = fst ?call"
    by simp
  with r t show ?thesis by blast
qed

theorem scorer_pure_and_stateless_witness:
  "(0::nat) < length [three_cars] \<and>
   take (length [three_cars])
     (snd (display_recommendations_call insertion_argsort [three_cars] 0 ''Regular road trips (> 200 mi)''
            ''No preference'' ''Moderate (occasional trips)'' ''quick'' None None)) = [three_cars] \<and>
   fst (display_recommendations_call insertion_argsort
         (snd (display_recommendations_call insertion_argsort [three_cars] 0 ''Regular road trips (> 200 mi)''
                ''No preference'' ''Moderate (occasional trips)'' ''quick'' None None))
         0 ''Regular road trips (> 200 mi)'' ''No preference'' ''Moderate (occasional trips)'' ''quick'' None None) =
   fst (display_recommendations_call insertion_argsort [three_cars] 0 ''Regular road trips (> 200 mi)''
         ''No preference'' ''Moderate (occasional trips)'' ''quick'' None None) \<and>
   map_sum id (map_option ranking)
     (fst (display_recommendations_call insertion_argsort [three_cars] 0 ''Regular road trips (> 200 mi)''
            ''No preference'' ''Moderate (occasional trips)'' ''quick'' None None)) = Inr (Some [0, 2, 1])"
proof -
  have l: "(0::nat) < length [three_cars]" by simp
  note t = scorer_pure_and_stateless [OF l, of insertion_argsort "''Regular road trips (> 200 mi)''"
      "''No preference''" "''Moderate (occasional trips)''" "''quick''" None None]
  have p: "map_sum id (map_option ranking)
     (display_recommendations insertion_argsort three_cars ''Regular road trips (> 200 mi)''
            ''No preference'' ''Moderate (occasional trips)'' ''quick'' None None) = Inr (Some [0, 2, 1])"
    by code_simp
  have n: "[three_cars] ! 0 = three_cars" by simp
  have e: "map_sum id (map_option ranking)
     (fst (display_recommendations_call insertion_argsort [three_cars] 0 ''Regular road trips (> 200 mi)''
            ''No preference'' ''Moderate (occasional trips)'' ''quick'' None None)) = Inr (Some [0, 2, 1])"
    unfolding t [THEN conjunct1] n by (rule p)
  show ?thesis
    by (intro conjI) (rule l, rule t [THEN conjunct2, THEN conjunct1],
        rule t [THEN conjunct2, THEN conjunct2], rule e)
qed

subsection \<open>Equal composite scores\<close>

text \<open>
  The order among candidates with equal composite scores is the order in which the
  library's sort leaves equal keys: the source passes no \<^verbatim>\<open>kind\<close> to
  \<^verbatim>\<open>sort_values\<close>, and the two admissible sorts rank two cars with the same
  score in opposite orders.
\<close>

lemma reversing_argsort_ok: "argsort_ok reversing_argsort"
proof -
  have "sorted (map (\<lambda>k. xs ! k) (reversing_argsort xs))" for xs :: "rat list"
  proof -
    let ?l = "sort_key (\<lambda>k. - (xs ! k)) [0..<length xs]"
    have "sorted (map (\<lambda>k. - (xs ! k)) ?l)" by (rule sorted_sort_key)
    then have "sorted_wrt (\<lambda>a b. xs ! b \<le> xs ! a) ?l"
      by (simp add: sorted_wrt_map)
    then have "sorted_wrt (\<lambda>a b. xs ! a \<le> xs ! b) (rev ?l)"
      by (simp add: sorted_wrt_rev)
    then show ?thesis by (simp add: reversing_argsort_def sorted_wrt_map)
  qed
  then show ?thesis by (simp add: argsort_ok_def) (simp add: reversing_argsort_def)
qed

lemma tie_order_is_the_sorts:
  "map composite_score (rows (score_frame twins default_weights None)) = [Some (1/2), Some (1/2)] \<and>
   sort_values_desc insertion_argsort (score_frame twins default_weights None) = [0, 1] \<and>
   sort_values_desc reversing_argsort (score_frame twins default_weights None) = [1, 0]"
  by code_simp

end
